theory Spec2Isabelle
  imports Complex_Main
begin

section \<open>Graph data (the \<open>useGraph\<close> hooks)\<close>

text \<open>
  The graph hooks are the part of \<^verbatim>\<open>src/components/ui/Spinner.tsx\<close> that starts at
  ``Types matching Rust GraphData response''. The TypeScript interfaces \<open>GraphNode\<close>,
  \<open>GraphEdge\<close>, \<open>ConceptInfo\<close> and \<open>GraphData\<close> become records; the string
  unions \<open>NodeType\<close> and \<open>EdgeType\<close> become datatypes. Some names are taken in HOL
  or are keywords: the field \<open>id\<close> is written \<open>node_id\<close>, \<open>count\<close> is \<open>count_c\<close>,
  \<open>notes\<close> is \<open>notes_c\<close>, the edge's \<open>concept\<close> is \<open>concept_name\<close>, and the
  values \<open>'note'\<close>, \<open>'concept'\<close>, \<open>'direct'\<close> are \<open>note_node\<close>, \<open>concept_node\<close>,
  \<open>concept_edge\<close>, \<open>direct_edge\<close>. A JavaScript \<open>number\<close> holding a connection
  count is an \<open>int\<close>; an optional field is an \<open>option\<close>.
\<close>

datatype NodeType = note_node | concept_node

datatype EdgeType = direct_edge | concept_edge

record GraphNode =
  node_id :: string
  label :: string
  path :: string
  connections :: int
  nodeType :: NodeType

record GraphEdge =
  source :: string
  target :: string
  edgeType :: EdgeType
  concept_name :: "string option"

record ConceptInfo =
  name :: string
  count_c :: int
  notes_c :: "string list"

record GraphData =
  nodes :: "GraphNode list"
  edges :: "GraphEdge list"
  concepts :: "ConceptInfo list"

text \<open>
  \<open>D3Node extends GraphNode\<close>. The simulation fields \<open>x, y, vx, vy, fx, fy\<close> are
  never written by the transform and are left out; \<open>tags\<close> is optional and also never
  written, it is kept here as an \<open>option\<close> because the tag filter is about it.
  \<open>size\<close> is written \<open>size_d3\<close> (\<open>size\<close> is a HOL constant). The arithmetic on
  \<open>number\<close> in \<open>calculateNodeSize\<close> is modelled over the reals.
\<close>

record D3Node = GraphNode +
  size_d3 :: real
  isCenter :: bool
  folder :: string
  tags :: "string list option"

record D3GraphData =
  d3_nodes :: "D3Node list"
  d3_edges :: "GraphEdge list"
  d3_concepts :: "ConceptInfo list"

record GraphFilterOptions =
  folderPath :: "string option"
  tag :: "string option"
  showOrphans :: "bool option"
  showConceptLinks :: "bool option"

subsection \<open>Utility functions\<close>

text \<open>\<open>String.prototype.startsWith\<close>, \<open>lastIndexOf\<close> (\<open>-1\<close> when absent) and
  \<open>substring(0, n)\<close>.\<close>

definition startsWith :: "string \<Rightarrow> string \<Rightarrow> bool" where
  "startsWith s p = (take (length p) s = p)"

definition lastIndexOf :: "string \<Rightarrow> char \<Rightarrow> int" where
  "lastIndexOf s c =
     (case filter (\<lambda>i. s ! i = c) (rev [0..<length s]) of
        [] \<Rightarrow> - 1
      | i # _ \<Rightarrow> int i)"

definition getFolderPath :: "string \<Rightarrow> string" where
  "getFolderPath p =
     (let lastSlash = lastIndexOf p (CHR ''/'')
      in if lastSlash > 0 then take (nat lastSlash) p else ''/'')"

text \<open>A string used as a condition is true when it is defined and not empty.\<close>

definition truthy :: "string option \<Rightarrow> bool" where
  "truthy s = (case s of None \<Rightarrow> False | Some v \<Rightarrow> v \<noteq> [])"

text \<open>Destructuring with a default: \<open>{ showOrphans = true }\<close>.\<close>

definition orDefault :: "bool option \<Rightarrow> bool \<Rightarrow> bool" where
  "orDefault b d = (case b of None \<Rightarrow> d | Some v \<Rightarrow> v)"

definition calculateNodeSize :: "int \<Rightarrow> int \<Rightarrow> real" where
  "calculateNodeSize conns maxConnections =
     (let minSize = 4; maxSize = 20
      in if maxConnections = 0 then minSize
         else let ratio = real_of_int conns / real_of_int maxConnections
              in minSize + ratio * (maxSize - minSize))"

text \<open>\<open>Math.max(...data.nodes.map(n => n.connections), 1)\<close>.\<close>

definition maxConnectionsOf :: "GraphData \<Rightarrow> int" where
  "maxConnectionsOf data = foldr max (map connections (nodes data)) 1"

subsection \<open>transformToD3\<close>

text \<open>The first \<open>data.nodes.filter\<close>: folder scope, then orphans by the node's own
  connection count.\<close>

definition nodePasses :: "GraphFilterOptions \<Rightarrow> GraphNode \<Rightarrow> bool" where
  "nodePasses filters n =
     (if truthy (folderPath filters) \<and> \<not> startsWith (path n) (the (folderPath filters))
      then False
      else if \<not> orDefault (showOrphans filters) True \<and> connections n = 0 then False
      else True)"

definition firstFilteredNodes :: "GraphData \<Rightarrow> GraphFilterOptions \<Rightarrow> GraphNode list" where
  "firstFilteredNodes data filters = filter (nodePasses filters) (nodes data)"

definition validNodeIds :: "GraphData \<Rightarrow> GraphFilterOptions \<Rightarrow> string set" where
  "validNodeIds data filters = set (map node_id (firstFilteredNodes data filters))"

definition edgePasses :: "string set \<Rightarrow> GraphFilterOptions \<Rightarrow> GraphEdge \<Rightarrow> bool" where
  "edgePasses valid filters e =
     (if source e \<notin> valid \<or> target e \<notin> valid then False
      else if \<not> orDefault (showConceptLinks filters) True \<and> edgeType e = concept_edge
      then False
      else True)"

definition filteredEdges :: "GraphData \<Rightarrow> GraphFilterOptions \<Rightarrow> GraphEdge list" where
  "filteredEdges data filters =
     filter (edgePasses (validNodeIds data filters) filters) (edges data)"

text \<open>\<open>connectedIds\<close>: every source and every target of a kept edge.\<close>

definition connectedIds :: "GraphEdge list \<Rightarrow> string set" where
  "connectedIds es = set (concat (map (\<lambda>e. [source e, target e]) es))"

text \<open>The second pass over \<open>filteredNodes\<close>, run only when \<open>showOrphans\<close> is false.\<close>

definition filteredNodes :: "GraphData \<Rightarrow> GraphFilterOptions \<Rightarrow> GraphNode list" where
  "filteredNodes data filters =
     (if \<not> orDefault (showOrphans filters) True
      then filter (\<lambda>n. node_id n \<in> connectedIds (filteredEdges data filters)
                        \<or> connections n > 0)
             (firstFilteredNodes data filters)
      else firstFilteredNodes data filters)"

definition toD3Node :: "int \<Rightarrow> string option \<Rightarrow> GraphNode \<Rightarrow> D3Node" where
  "toD3Node maxConnections centerPath n =
     GraphNode.extend n
       (D3Node.fields
          (calculateNodeSize (connections n) maxConnections)
          (if truthy centerPath then path n = the centerPath else False)
          (getFolderPath (path n))
          None)"

definition toD3Edge :: "GraphEdge \<Rightarrow> GraphEdge" where
  "toD3Edge e =
     \<lparr> source = source e, target = target e, edgeType = edgeType e,
       concept_name = concept_name e \<rparr>"

definition transformToD3 ::
  "GraphData \<Rightarrow> GraphFilterOptions \<Rightarrow> string option \<Rightarrow> D3GraphData" where
  "transformToD3 data filters centerPath =
     (let maxConnections = maxConnectionsOf data;
          d3Nodes = map (toD3Node maxConnections centerPath) (filteredNodes data filters);
          d3Edges = map toD3Edge (filteredEdges data filters);
          filteredConcepts =
            filter (\<lambda>c. \<exists>notePath \<in> set (notes_c c). notePath \<in> validNodeIds data filters)
              (concepts data)
      in \<lparr> d3_nodes = d3Nodes, d3_edges = d3Edges, d3_concepts = filteredConcepts \<rparr>)"


section \<open>Result caches and the fetching hooks\<close>

text \<open>
  \<open>useGraph\<close> and \<open>useLocalGraph\<close> are in \<^verbatim>\<open>src/components/ui/Spinner.tsx\<close>,
  \<open>useLinks\<close> is in \<^verbatim>\<open>src/hooks/useLinks.ts\<close>.
  An \<open>async\<close> function is split where it awaits the backend: \<open>_begin\<close> is the part
  that runs when the function is called, up to the \<open>invoke\<close>, and \<open>_settle\<close> is the
  part that runs when the backend answers (\<open>try\<close> body after the \<open>await\<close>, or
  \<open>catch\<close>, then \<open>finally\<close>). \<open>Date.now()\<close> is the argument \<open>now\<close>, in
  milliseconds. The module-level \<open>Map\<close> caches are maps from the key to the entry;
  a hook instance's \<open>useState\<close> and \<open>useRef\<close> cells are the fields of a record.
  What the hook closes over (\<open>path\<close>, \<open>centerPath\<close>, \<open>depth\<close>) is an argument
  of both parts.
\<close>

datatype command =
  get_graph_data
  | get_local_graph string int
  | get_links string \<comment> \<open>\<open>Promise.all\<close> of \<open>get_backlinks\<close> and \<open>get_outgoing_links\<close>\<close>

text \<open>How a call of the hook's fetch function leaves off: it has returned (its promise
  is resolved), or it waits for the backend command it has issued.\<close>

datatype outcome = Returned | Awaiting command

text \<open>What a rejected \<open>invoke\<close> throws: an \<open>Error\<close> object with a message, or
  anything else.\<close>

datatype thrown = ErrorObject string | OtherValue

definition errorMessage :: "thrown \<Rightarrow> string \<Rightarrow> string" where
  "errorMessage err fallback = (case err of ErrorObject m \<Rightarrow> m | OtherValue \<Rightarrow> fallback)"

subsection \<open>useGraph and useLocalGraph\<close>

record GraphCacheEntry =
  data_g :: GraphData
  timestamp_g :: int

type_synonym GraphCache = "string \<rightharpoonup> GraphCacheEntry"

definition CACHE_TTL_graph :: int where
  "CACHE_TTL_graph = 60000"

record GraphHook =
  rawData :: "GraphData option"
  isLoading :: bool
  error :: "string option"
  fetchInProgressRef :: bool

definition fetchGraph_begin :: "int \<Rightarrow> GraphCache \<Rightarrow> GraphHook \<Rightarrow> outcome \<times> GraphHook" where
  "fetchGraph_begin now cache h =
     (if fetchInProgressRef h then (Returned, h)
      else
        (case cache ''full'' of
           Some cached \<Rightarrow>
             if now - timestamp_g cached < CACHE_TTL_graph
             then (Returned, h\<lparr>rawData := Some (data_g cached), error := None\<rparr>)
             else (Awaiting get_graph_data,
                   h\<lparr>fetchInProgressRef := True, isLoading := True, error := None\<rparr>)
         | None \<Rightarrow>
             (Awaiting get_graph_data,
              h\<lparr>fetchInProgressRef := True, isLoading := True, error := None\<rparr>)))"

definition fetchGraph_settle ::
  "thrown + GraphData \<Rightarrow> int \<Rightarrow> GraphCache \<times> GraphHook \<Rightarrow> GraphCache \<times> GraphHook" where
  "fetchGraph_settle result now st =
     (case st of (cache, h) \<Rightarrow>
        (case result of
           Inr data \<Rightarrow>
             (cache(''full'' \<mapsto> \<lparr>data_g = data, timestamp_g = now\<rparr>),
              h\<lparr>rawData := Some data, isLoading := False, fetchInProgressRef := False\<rparr>)
         | Inl err \<Rightarrow>
             (cache,
              h\<lparr>error := Some (errorMessage err ''Failed to fetch graph data''),
                isLoading := False, fetchInProgressRef := False\<rparr>)))"

text \<open>\<open>refresh\<close> of \<open>useGraph\<close>: delete the entry, then fetch.\<close>

definition refreshGraph_begin ::
  "int \<Rightarrow> GraphCache \<Rightarrow> GraphHook \<Rightarrow> outcome \<times> GraphCache \<times> GraphHook" where
  "refreshGraph_begin now cache h =
     (let cache' = cache(''full'' := None);
          r = fetchGraph_begin now cache' h
      in (fst r, cache', snd r))"

text \<open>The template string \<open>`local:${centerPath}:${depth}`\<close>; \<open>depth\<close> is printed
  in decimal.\<close>

fun showNat :: "nat \<Rightarrow> string" where
  "showNat n =
     (if n < 10 then [''0123456789'' ! n]
      else showNat (n div 10) @ [''0123456789'' ! (n mod 10)])"

definition showInt :: "int \<Rightarrow> string" where
  "showInt i = (if i < 0 then CHR ''-'' # showNat (nat (- i)) else showNat (nat i))"

definition localCacheKey :: "string \<Rightarrow> int \<Rightarrow> string" where
  "localCacheKey centerPath depth = ''local:'' @ centerPath @ '':'' @ showInt depth"

record LocalGraphHook =
  local_rawData :: "GraphData option"
  local_isLoading :: bool
  local_error :: "string option"
  local_currentPathRef :: "string option"

definition fetchLocalGraph_begin ::
  "string option \<Rightarrow> int \<Rightarrow> int \<Rightarrow> GraphCache \<Rightarrow> LocalGraphHook
     \<Rightarrow> outcome \<times> LocalGraphHook" where
  "fetchLocalGraph_begin centerPath depth now cache h =
     (if \<not> truthy centerPath
      then (Returned, h\<lparr>local_rawData := None, local_error := None\<rparr>)
      else
        (let cacheKey = localCacheKey (the centerPath) depth;
             miss = (Awaiting (get_local_graph (the centerPath) depth),
                     h\<lparr>local_currentPathRef := centerPath, local_isLoading := True,
                       local_error := None\<rparr>)
         in case cache cacheKey of
              Some cached \<Rightarrow>
                if now - timestamp_g cached < CACHE_TTL_graph
                then (Returned,
                      h\<lparr>local_rawData := Some (data_g cached), local_error := None\<rparr>)
                else miss
            | None \<Rightarrow> miss))"

definition fetchLocalGraph_settle ::
  "string \<Rightarrow> int \<Rightarrow> thrown + GraphData \<Rightarrow> int \<Rightarrow> GraphCache \<times> LocalGraphHook
     \<Rightarrow> GraphCache \<times> LocalGraphHook" where
  "fetchLocalGraph_settle centerPath depth result now st =
     (case st of (cache, h) \<Rightarrow>
        (let current = (local_currentPathRef h = Some centerPath);
             st1 =
               (case result of
                  Inr data \<Rightarrow>
                    if current
                    then (cache(localCacheKey centerPath depth
                                  \<mapsto> \<lparr>data_g = data, timestamp_g = now\<rparr>),
                          h\<lparr>local_rawData := Some data\<rparr>)
                    else (cache, h)
                | Inl err \<Rightarrow>
                    if current
                    then (cache,
                          h\<lparr>local_error :=
                              Some (errorMessage err ''Failed to fetch local graph'')\<rparr>)
                    else (cache, h))
         in if current then (fst st1, (snd st1)\<lparr>local_isLoading := False\<rparr>) else st1))"

subsection \<open>useLinks\<close>

record LinkInfo =
  link_path :: string
  link_title :: string
  link_text :: "string option"

record LinksResponse =
  resp_path :: string
  links :: "LinkInfo list"

record LinksCacheEntry =
  backlinks_e :: "LinkInfo list"
  outgoingLinks_e :: "LinkInfo list"
  timestamp_l :: int

type_synonym LinksCache = "string \<rightharpoonup> LinksCacheEntry"

definition CACHE_TTL_links :: int where
  "CACHE_TTL_links = 30000"

record LinksHook =
  backlinks :: "LinkInfo list"
  outgoingLinks :: "LinkInfo list"
  links_isLoading :: bool
  links_error :: "string option"
  currentPathRef :: "string option"

definition fetchLinks_begin ::
  "string option \<Rightarrow> int \<Rightarrow> LinksCache \<Rightarrow> LinksHook \<Rightarrow> outcome \<times> LinksHook" where
  "fetchLinks_begin path_arg now cache h =
     (if \<not> truthy path_arg
      then (Returned, h\<lparr>backlinks := [], outgoingLinks := [], links_error := None\<rparr>)
      else
        (let miss = (Awaiting (get_links (the path_arg)),
                     h\<lparr>currentPathRef := path_arg, links_isLoading := True,
                       links_error := None\<rparr>)
         in case cache (the path_arg) of
              Some cached \<Rightarrow>
                if now - timestamp_l cached < CACHE_TTL_links
                then (Returned,
                      h\<lparr>backlinks := backlinks_e cached,
                        outgoingLinks := outgoingLinks_e cached, links_error := None\<rparr>)
                else miss
            | None \<Rightarrow> miss))"

definition fetchLinks_settle ::
  "string \<Rightarrow> thrown + LinksResponse \<times> LinksResponse \<Rightarrow> int \<Rightarrow> LinksCache \<times> LinksHook
     \<Rightarrow> LinksCache \<times> LinksHook" where
  "fetchLinks_settle path_arg result now st =
     (case st of (cache, h) \<Rightarrow>
        (let current = (currentPathRef h = Some path_arg);
             st1 =
               (case result of
                  Inr (backlinksResponse, outgoingResponse) \<Rightarrow>
                    if current
                    then (let newBacklinks = links backlinksResponse;
                              newOutgoingLinks = links outgoingResponse
                          in (cache(path_arg \<mapsto>
                                      \<lparr>backlinks_e = newBacklinks,
                                       outgoingLinks_e = newOutgoingLinks,
                                       timestamp_l = now\<rparr>),
                              h\<lparr>backlinks := newBacklinks,
                                outgoingLinks := newOutgoingLinks\<rparr>))
                    else (cache, h)
                | Inl err \<Rightarrow>
                    if current
                    then (cache,
                          h\<lparr>links_error := Some (errorMessage err ''Failed to fetch links'')\<rparr>)
                    else (cache, h))
         in if current then (fst st1, (snd st1)\<lparr>links_isLoading := False\<rparr>) else st1))"


section \<open>Wikilink syntax (editor extension and reading view)\<close>

subsection \<open>Regular expressions as the source writes them\<close>

text \<open>
  The JavaScript regular expressions of the source are terms of \<open>rx\<close>, matched by a
  backtracking matcher in continuation-passing style: \<open>rmatch r p s c k\<close> matches \<open>r\<close>
  at the front of the remaining input \<open>s\<close>, where \<open>p\<close> is the character before it
  (\<open>None\<close> at the start of the input) and \<open>c\<close> holds the capture groups so far, and
  calls \<open>k\<close> on what is left; a failing continuation makes the matcher try its next
  alternative, longest first for a greedy quantifier and shortest first for a lazy one.
  The quantifiers \<open>*\<close>, \<open>*?\<close> and \<open>+\<close> occur in the source only on a single
  character class. A \<open>char\<close> stands for one UTF-16 code unit below 256.
\<close>

type_synonym caps = "nat \<Rightarrow> string option"

datatype rx =
  Lit string \<comment> \<open>literal characters\<close>
  | One "char \<Rightarrow> bool" \<comment> \<open>one character of a class\<close>
  | Star "char \<Rightarrow> bool" \<comment> \<open>\<open>[...]*\<close>\<close>
  | StarLazy "char \<Rightarrow> bool" \<comment> \<open>\<open>[...]*?\<close>\<close>
  | Plus "char \<Rightarrow> bool" \<comment> \<open>\<open>[...]+\<close>\<close>
  | Opt rx \<comment> \<open>\<open>(?:r)?\<close>\<close>
  | Alt rx rx \<comment> \<open>\<open>a|b\<close>\<close>
  | Seq rx rx
  | Cap nat rx \<comment> \<open>capture group number \<open>n\<close>\<close>
  | Bol \<comment> \<open>\<open>^\<close> without the \<open>m\<close> flag\<close>
  | BolM \<comment> \<open>\<open>^\<close> with the \<open>m\<close> flag\<close>
  | EolM \<comment> \<open>\<open>$\<close> with the \<open>m\<close> flag\<close>

definition isLineTerminator :: "char \<Rightarrow> bool" where
  "isLineTerminator c = (c = CHR 0x0A \<or> c = CHR 0x0D)"

text \<open>\<open>\s\<close>, \<open>\w\<close>, \<open>.\<close>, \<open>[\s\S]\<close>, \<open>[^...]\<close> and \<open>[...]\<close>.\<close>

definition isSpace :: "char \<Rightarrow> bool" where
  "isSpace c = (c \<in> set [CHR 0x09, CHR 0x0A, CHR 0x0B, CHR 0x0C, CHR 0x0D, CHR 0x20, CHR 0xA0])"

definition isWord :: "char \<Rightarrow> bool" where
  "isWord c =
     (c \<in> set ''ABCDEFGHIJKLMNOPQRSTUVWXYZabcdefghijklmnopqrstuvwxyz0123456789_'')"

definition isDot :: "char \<Rightarrow> bool" where
  "isDot c = (\<not> isLineTerminator c)"

definition anyChar :: "char \<Rightarrow> bool" where
  "anyChar c = True"

definition noneOf :: "string \<Rightarrow> char \<Rightarrow> bool" where
  "noneOf cs c = (c \<notin> set cs)"

definition oneOf :: "string \<Rightarrow> char \<Rightarrow> bool" where
  "oneOf cs c = (c \<in> set cs)"

fun starGreedy ::
  "(char \<Rightarrow> bool) \<Rightarrow> char option \<Rightarrow> string
     \<Rightarrow> (char option \<Rightarrow> string \<Rightarrow> 'a option) \<Rightarrow> 'a option" where
  "starGreedy P p [] k = k p []"
| "starGreedy P p (x # s) k =
     (if P x
      then (case starGreedy P (Some x) s k of Some r \<Rightarrow> Some r | None \<Rightarrow> k p (x # s))
      else k p (x # s))"

fun starLazy ::
  "(char \<Rightarrow> bool) \<Rightarrow> char option \<Rightarrow> string
     \<Rightarrow> (char option \<Rightarrow> string \<Rightarrow> 'a option) \<Rightarrow> 'a option" where
  "starLazy P p [] k = k p []"
| "starLazy P p (x # s) k =
     (case k p (x # s) of
        Some r \<Rightarrow> Some r
      | None \<Rightarrow> if P x then starLazy P (Some x) s k else None)"

fun rmatch ::
  "rx \<Rightarrow> char option \<Rightarrow> string \<Rightarrow> caps
     \<Rightarrow> (char option \<Rightarrow> string \<Rightarrow> caps \<Rightarrow> 'a option) \<Rightarrow> 'a option" where
  "rmatch (Lit l) p s c k =
     (if l = [] then k p s c
      else if startsWith s l then k (Some (last l)) (drop (length l) s) c
      else None)"
| "rmatch (One P) p s c k =
     (case s of [] \<Rightarrow> None | x # s' \<Rightarrow> if P x then k (Some x) s' c else None)"
| "rmatch (Star P) p s c k = starGreedy P p s (\<lambda>p' s'. k p' s' c)"
| "rmatch (StarLazy P) p s c k = starLazy P p s (\<lambda>p' s'. k p' s' c)"
| "rmatch (Plus P) p s c k =
     (case s of
        [] \<Rightarrow> None
      | x # s' \<Rightarrow> if P x then starGreedy P (Some x) s' (\<lambda>p' s''. k p' s'' c) else None)"
| "rmatch (Opt r) p s c k =
     (case rmatch r p s c k of Some y \<Rightarrow> Some y | None \<Rightarrow> k p s c)"
| "rmatch (Alt a b) p s c k =
     (case rmatch a p s c k of Some y \<Rightarrow> Some y | None \<Rightarrow> rmatch b p s c k)"
| "rmatch (Seq a b) p s c k = rmatch a p s c (\<lambda>p' s' c'. rmatch b p' s' c' k)"
| "rmatch (Cap n r) p s c k =
     rmatch r p s c
       (\<lambda>p' s' c'. k p' s' (c'(n := Some (take (length s - length s') s))))"
| "rmatch Bol p s c k = (if p = None then k p s c else None)"
| "rmatch BolM p s c k =
     (if p = None \<or> isLineTerminator (the p) then k p s c else None)"
| "rmatch EolM p s c k =
     (if s = [] \<or> isLineTerminator (hd s) then k p s c else None)"

fun seqs :: "rx list \<Rightarrow> rx" where
  "seqs [] = Lit []"
| "seqs [r] = r"
| "seqs (r # rs) = Seq r (seqs rs)"

text \<open>One attempt at one position: the length of the match and its groups.\<close>

definition matchAt :: "rx \<Rightarrow> char option \<Rightarrow> string \<Rightarrow> (nat \<times> caps) option" where
  "matchAt r p s =
     rmatch r p s (\<lambda>n. None) (\<lambda>p' s' c. Some (length s - length s', c))"

text \<open>A group that did not take part is \<open>undefined\<close>; in a replacement template it
  prints as the empty string.\<close>

definition group :: "caps \<Rightarrow> nat \<Rightarrow> string" where
  "group c n = (case c n of None \<Rightarrow> [] | Some v \<Rightarrow> v)"

text \<open>
  \<open>String.prototype.replace\<close> with a \<open>g\<close> regular expression: every match from left
  to right, the search resuming after the match (one character further on after an empty
  match); \<open>p\<close> is the character before the position. Without the \<open>g\<close> flag only the
  first match is replaced.
\<close>

fun replaceAll_rx ::
  "rx \<Rightarrow> (caps \<Rightarrow> string) \<Rightarrow> char option \<Rightarrow> string \<Rightarrow> string" where
  "replaceAll_rx r f p [] =
     (case matchAt r p [] of None \<Rightarrow> [] | Some (len, c) \<Rightarrow> f c)"
| "replaceAll_rx r f p (x # s) =
     (case matchAt r p (x # s) of
        None \<Rightarrow> x # replaceAll_rx r f (Some x) s
      | Some (len, c) \<Rightarrow>
          if 0 < len \<and> len \<le> length (x # s)
          then f c @ replaceAll_rx r f (Some ((x # s) ! (len - 1))) (drop len (x # s))
          else f c @ x # replaceAll_rx r f (Some x) s)"

fun replaceFirst_rx ::
  "rx \<Rightarrow> (caps \<Rightarrow> string) \<Rightarrow> char option \<Rightarrow> string \<Rightarrow> string" where
  "replaceFirst_rx r f p [] =
     (case matchAt r p [] of None \<Rightarrow> [] | Some (len, c) \<Rightarrow> f c)"
| "replaceFirst_rx r f p (x # s) =
     (case matchAt r p (x # s) of
        None \<Rightarrow> x # replaceFirst_rx r f (Some x) s
      | Some (len, c) \<Rightarrow> f c @ drop len (x # s))"

text \<open>
  The loop \<open>while ((match = regex.exec(text)) !== null)\<close> over a \<open>g\<close> regular
  expression, \<open>lastIndex\<close> starting at 0: the matches in order, each with its
  \<open>index\<close>, the matched text \<open>match[0]\<close> and the groups.
\<close>

record RegExpMatch =
  index :: nat
  matched :: string
  groups :: caps

fun execAll :: "rx \<Rightarrow> nat \<Rightarrow> char option \<Rightarrow> string \<Rightarrow> RegExpMatch list" where
  "execAll r i p [] = []"
| "execAll r i p (x # s) =
     (case matchAt r p (x # s) of
        None \<Rightarrow> execAll r (i + 1) (Some x) s
      | Some (len, c) \<Rightarrow>
          if 0 < len \<and> len \<le> length (x # s)
          then \<lparr>index = i, matched = take len (x # s), groups = c\<rparr>
               # execAll r (i + len) (Some ((x # s) ! (len - 1))) (drop len (x # s))
          else execAll r (i + 1) (Some x) s)"


subsection \<open>extensions/wikilink.ts\<close>

text \<open>\<^verbatim>\<open>/\[\[([^\]|]+)(?:\|([^\]]+))?\]\]/g\<close>\<close>

definition wikilinkRegex :: rx where
  "wikilinkRegex =
     seqs [Lit ''[['', Cap 1 (Plus (noneOf '']|'')),
           Opt (seqs [Lit ''|'', Cap 2 (Plus (noneOf '']''))]), Lit '']]'']"

text \<open>
  The syntax tree comes from the editor's Markdown parser. A node has a name, the range
  it covers and its children; \<open>iterate({from, to, enter})\<close> enters, parents first, the
  nodes that touch the range, and does not descend below a node whose \<open>enter\<close>
  returned \<open>false\<close>. \<open>inCodeBlock\<close> is the flag the callback of the source sets.
\<close>

datatype SyntaxNode = SyntaxNode string nat nat "SyntaxNode list"

fun includes_str :: "string \<Rightarrow> string \<Rightarrow> bool" where
  "includes_str [] sub = (sub = [])"
| "includes_str (x # s) sub = (startsWith (x # s) sub \<or> includes_str s sub)"

definition isCodeName :: "string \<Rightarrow> bool" where
  "isCodeName nm =
     (includes_str nm ''CodeBlock'' \<or> includes_str nm ''FencedCode'' \<or> includes_str nm ''InlineCode'')"

fun inCodeBlock :: "nat \<Rightarrow> nat \<Rightarrow> SyntaxNode \<Rightarrow> bool" where
  "inCodeBlock start end' (SyntaxNode nm nfrom nto children) =
     (if nfrom \<le> end' \<and> nto \<ge> start
      then (if isCodeName nm then True
            else list_ex (inCodeBlock start end') children)
      else False)"

datatype mark = wikilinkMark | wikilinkBracketMark

record Decoration =
  deco_from :: nat
  deco_to :: nat
  deco_mark :: mark

text \<open>The body of the \<open>while\<close> loop for one match in a visible range starting at
  \<open>from\<close>.\<close>

definition decorateMatch :: "SyntaxNode \<Rightarrow> nat \<Rightarrow> RegExpMatch \<Rightarrow> Decoration list" where
  "decorateMatch tree from m =
     (let start = from + index m;
          end' = start + length (matched m)
      in if \<not> inCodeBlock start end' tree
         then [\<lparr>deco_from = start, deco_to = start + 2, deco_mark = wikilinkBracketMark\<rparr>,
               \<lparr>deco_from = start + 2, deco_to = end' - 2, deco_mark = wikilinkMark\<rparr>,
               \<lparr>deco_from = end' - 2, deco_to = end', deco_mark = wikilinkBracketMark\<rparr>]
         else [])"

text \<open>\<open>doc.sliceString(from, to)\<close>\<close>

definition sliceString :: "string \<Rightarrow> nat \<Rightarrow> nat \<Rightarrow> string" where
  "sliceString doc from to = take (to - from) (drop from doc)"

definition buildWikilinkDecorations ::
  "string \<Rightarrow> SyntaxNode \<Rightarrow> (nat \<times> nat) list \<Rightarrow> Decoration list" where
  "buildWikilinkDecorations doc tree visibleRanges =
     concat (map (\<lambda>(from, to).
                    concat (map (decorateMatch tree from)
                              (execAll wikilinkRegex 0 None (sliceString doc from to))))
               visibleRanges)"

subsection \<open>extensions/wikilinkAutocomplete.ts\<close>

text \<open>
  \<open>findWikilinkStart(text, pos)\<close>: whether the cursor at \<open>pos\<close> is inside an open
  \<open>[[\<close>. \<open>slice(a, b)\<close> is taken at indices that are not negative. The \<open>while\<close>
  loop runs \<open>i\<close> down from the end of \<open>searchText\<close>; it gives the index of the first
  bracket of the \<open>[[\<close> it stops at, relative to \<open>searchText\<close>, or nothing
  (\<open>bracketStart === -1\<close>). Where the source takes \<open>i\<close> below 0 the loop ends, as it
  does here at 0.
\<close>

definition slice :: "string \<Rightarrow> nat \<Rightarrow> nat \<Rightarrow> string" where
  "slice s a b = take (b - a) (drop a s)"

fun findOpenBrackets :: "string \<Rightarrow> nat \<Rightarrow> nat option" where
  "findOpenBrackets searchText i =
     (if 1 \<le> i
      then (if searchText ! i = CHR '']'' \<and> searchText ! (i - 1) = CHR '']''
            then findOpenBrackets searchText (i - 2)
            else if searchText ! i = CHR ''['' \<and> searchText ! (i - 1) = CHR ''[''
            then Some (i - 1)
            else findOpenBrackets searchText (i - 1))
      else None)"

definition findWikilinkStart :: "string \<Rightarrow> nat \<Rightarrow> (nat \<times> string) option" where
  "findWikilinkStart text pos =
     (let searchStart = pos - 100;
          searchText = slice text searchStart pos
      in case findOpenBrackets searchText (length searchText - 1) of
           None \<Rightarrow> None
         | Some j \<Rightarrow>
             (let bracketStart = searchStart + j;
                  query = slice text (bracketStart + 2) pos
              in if CHR ''\<newline>'' \<in> set query \<or> CHR ''|'' \<in> set query then None
                 else Some (bracketStart, query)))"

subsection \<open>ReadingView.tsx\<close>

text \<open>\<^verbatim>\<open>/^---\r?\n[\s\S]*?\r?\n---\r?\n?|^\+\+\+\r?\n[\s\S]*?\r?\n\+\+\+\r?\n?/\<close>\<close>

definition frontmatterRegex :: rx where
  "frontmatterRegex =
     Alt (seqs [Bol, Lit ''---'', Opt (Lit [CHR 0x0D]), Lit [CHR 0x0A], StarLazy anyChar,
                Opt (Lit [CHR 0x0D]), Lit [CHR 0x0A], Lit ''---'',
                Opt (Lit [CHR 0x0D]), Opt (Lit [CHR 0x0A])])
         (seqs [Bol, Lit ''+++'', Opt (Lit [CHR 0x0D]), Lit [CHR 0x0A], StarLazy anyChar,
                Opt (Lit [CHR 0x0D]), Lit [CHR 0x0A], Lit ''+++'',
                Opt (Lit [CHR 0x0D]), Opt (Lit [CHR 0x0A])])"

definition stripFrontmatter :: "string \<Rightarrow> string" where
  "stripFrontmatter content = replaceFirst_rx frontmatterRegex (\<lambda>c. []) None content"

text \<open>\<^verbatim>\<open>/\[\[([^\]|]+)\|([^\]]+)\]\]/g\<close> and \<^verbatim>\<open>/\[\[([^\]]+)\]\]/g\<close>\<close>

definition aliasedWikilinkRegex :: rx where
  "aliasedWikilinkRegex =
     seqs [Lit ''[['', Cap 1 (Plus (noneOf '']|'')), Lit ''|'',
           Cap 2 (Plus (noneOf '']'')), Lit '']]'']"

definition plainWikilinkRegex :: rx where
  "plainWikilinkRegex = seqs [Lit ''[['', Cap 1 (Plus (noneOf '']'')), Lit '']]'']"

definition aliasedWikilinkSpan :: "caps \<Rightarrow> string" where
  "aliasedWikilinkSpan c =
     ''<span class=\"wikilink\" data-target=\"'' @ group c 1 @ ''\">'' @ group c 2 @ ''</span>''"

definition plainWikilinkSpan :: "caps \<Rightarrow> string" where
  "plainWikilinkSpan c =
     ''<span class=\"wikilink\" data-target=\"'' @ group c 1 @ ''\">'' @ group c 1 @ ''</span>''"

text \<open>\<^verbatim>\<open>/(^|\s)#([\w/-]+)/g\<close>\<close>

definition tagRegex :: rx where
  "tagRegex =
     seqs [Cap 1 (Alt Bol (One isSpace)), Lit ''#'',
           Cap 2 (Plus (\<lambda>x. isWord x \<or> oneOf ''/-'' x))]"

definition tagSpan :: "caps \<Rightarrow> string" where
  "tagSpan c =
     group c 1 @ ''<span class=\"tag\" data-tag=\"'' @ group c 2 @ ''\">#'' @ group c 2
       @ ''</span>''"

text \<open>\<^verbatim>\<open>/^> \[!(\w+)\]([-+]?)\s*(.*)$/gm\<close>\<close>

definition calloutRegex :: rx where
  "calloutRegex =
     seqs [BolM, Lit ''> [!'', Cap 1 (Plus isWord), Lit '']'',
           Cap 2 (Opt (One (oneOf ''-+''))), Star isSpace, Cap 3 (Star isDot), EolM]"

text \<open>\<open>toLowerCase\<close> on a callout type, which \<open>\w+\<close> has matched.\<close>

definition toLowerChar :: "char \<Rightarrow> char" where
  "toLowerChar x =
     (case map_of (zip ''ABCDEFGHIJKLMNOPQRSTUVWXYZ'' ''abcdefghijklmnopqrstuvwxyz'') x of
        Some y \<Rightarrow> y
      | None \<Rightarrow> x)"

definition toLowerCase :: "string \<Rightarrow> string" where
  "toLowerCase s = map toLowerChar s"

definition calloutDiv :: "caps \<Rightarrow> string" where
  "calloutDiv c =
     (let type = group c 1; fold_c = group c 2; title = group c 3;
          foldClass = (if fold_c = ''-'' then ''collapsed''
                       else if fold_c = ''+'' then ''expanded'' else [])
      in ''<div class=\"callout callout-'' @ toLowerCase type @ '' '' @ foldClass
           @ ''\"><div class=\"callout-title\"><span class=\"callout-icon\"></span>''
           @ ''<span class=\"callout-title-text\">'' @ (if title \<noteq> [] then title else type)
           @ ''</span></div><div class=\"callout-content\">'')"

definition preprocessMarkdown :: "string \<Rightarrow> string" where
  "preprocessMarkdown content =
     (let contentWithoutFrontmatter = stripFrontmatter content;
          s1 = replaceAll_rx aliasedWikilinkRegex aliasedWikilinkSpan None
                 contentWithoutFrontmatter;
          s2 = replaceAll_rx plainWikilinkRegex plainWikilinkSpan None s1;
          s3 = replaceAll_rx tagRegex tagSpan None s2
      in replaceAll_rx calloutRegex calloutDiv None s3)"


section \<open>Definitions used to state the properties\<close>

subsection \<open>Edges touching a node\<close>

definition edgesTouching :: "GraphEdge list \<Rightarrow> string \<Rightarrow> nat" where
  "edgesTouching es i = length (filter (\<lambda>e. source e = i \<or> target e = i) es)"

subsection \<open>Validity of a cache entry, in the words of the specification\<close>

definition entryValid :: "int \<Rightarrow> int \<Rightarrow> int \<Rightarrow> bool" where
  "entryValid now timestamp ttl = (now - timestamp < ttl)"

subsection \<open>The shape of a wikilink match\<close>

text \<open>\<open>m\<close> is the matched text and \<open>c\<close> the groups: a target of one or more
  characters, none of them \<open>]\<close> or \<open>|\<close>, and either no alias, or an alias of one or
  more characters, none of them \<open>]\<close>.\<close>

definition wikilinkShape :: "string \<Rightarrow> caps \<Rightarrow> bool" where
  "wikilinkShape m c =
     (\<exists>t. c 1 = Some t \<and> t \<noteq> [] \<and> CHR '']'' \<notin> set t \<and> CHR ''|'' \<notin> set t
        \<and> (case c 2 of
              None \<Rightarrow> m = ''[['' @ t @ '']]''
            | Some a \<Rightarrow> a \<noteq> [] \<and> CHR '']'' \<notin> set a
                        \<and> m = ''[['' @ t @ ''|'' @ a @ '']]''))"

subsection \<open>A \<open>useLinks\<close> instance with its cache and its backend requests\<close>

text \<open>
  \<open>CallFetchLinks p now\<close>: the hook is rendered with path \<open>p\<close> and \<open>fetchLinks\<close> runs
  (the effect on a path change, or \<open>refresh\<close>). \<open>SettleLinks q r now\<close>: the backend
  answers the request issued for \<open>q\<close>. \<open>sys_path\<close> is the path the hook was last
  given, \<open>sys_inflight\<close> the requests issued and not yet answered, oldest first.
\<close>

datatype links_event =
  CallFetchLinks "string option" int
  | SettleLinks string "thrown + LinksResponse \<times> LinksResponse" int

record LinksSystem =
  sys_cache :: LinksCache
  sys_hook :: LinksHook
  sys_path :: "string option"
  sys_inflight :: "string list"

fun links_step :: "LinksSystem \<Rightarrow> links_event \<Rightarrow> LinksSystem" where
  "links_step s (CallFetchLinks p now) =
     (case fetchLinks_begin p now (sys_cache s) (sys_hook s) of
        (out, h') \<Rightarrow>
          s\<lparr>sys_hook := h', sys_path := p,
            sys_inflight :=
              sys_inflight s @ (case out of Awaiting (get_links q) \<Rightarrow> [q] | _ \<Rightarrow> [])\<rparr>)"
| "links_step s (SettleLinks q r now) =
     (if q \<in> set (sys_inflight s)
      then (case fetchLinks_settle q r now (sys_cache s, sys_hook s) of
              (cache', h') \<Rightarrow>
                s\<lparr>sys_cache := cache', sys_hook := h',
                  sys_inflight := remove1 q (sys_inflight s)\<rparr>)
      else s)"

definition links_run :: "links_event list \<Rightarrow> LinksSystem \<Rightarrow> LinksSystem" where
  "links_run evs s = foldl links_step s evs"

definition links_init :: LinksSystem where
  "links_init =
     \<lparr>sys_cache = Map.empty,
      sys_hook = \<lparr>backlinks = [], outgoingLinks = [], links_isLoading = False,
                  links_error = None, currentPathRef = None\<rparr>,
      sys_path = None, sys_inflight = []\<rparr>"

subsection \<open>Example inputs\<close>

text \<open>A vault with one note \<open>A.md\<close> that mentions \<open>[[C]]\<close>, for which no note exists:
  one note node, one concept node and the concept edge between them.\<close>

definition ex_noteA :: GraphNode where
  "ex_noteA =
     \<lparr>node_id = ''A.md'', label = ''A'', path = ''A.md'', connections = 1,
      nodeType = note_node\<rparr>"

definition ex_conceptC :: GraphNode where
  "ex_conceptC =
     \<lparr>node_id = ''concept:C'', label = ''C'', path = [], connections = 1,
      nodeType = concept_node\<rparr>"

definition ex_edgeAC :: GraphEdge where
  "ex_edgeAC =
     \<lparr>source = ''A.md'', target = ''concept:C'', edgeType = concept_edge,
      concept_name = Some ''C''\<rparr>"

definition ex_graph :: GraphData where
  "ex_graph =
     \<lparr>nodes = [ex_noteA, ex_conceptC], edges = [ex_edgeAC],
      concepts = [\<lparr>name = ''C'', count_c = 1, notes_c = [''A.md'']\<rparr>]\<rparr>"

definition ex_noFilters :: GraphFilterOptions where
  "ex_noFilters =
     \<lparr>folderPath = None, tag = None, showOrphans = Some True, showConceptLinks = Some True\<rparr>"

definition ex_hideConcepts :: GraphFilterOptions where
  "ex_hideConcepts =
     \<lparr>folderPath = None, tag = None, showOrphans = Some True, showConceptLinks = Some False\<rparr>"

definition ex_hideConceptsAndOrphans :: GraphFilterOptions where
  "ex_hideConceptsAndOrphans =
     \<lparr>folderPath = None, tag = None, showOrphans = Some False, showConceptLinks = Some False\<rparr>"

definition ex_tagFilter :: GraphFilterOptions where
  "ex_tagFilter =
     \<lparr>folderPath = None, tag = Some ''project'', showOrphans = Some True,
      showConceptLinks = Some True\<rparr>"

definition ex_graphHook :: GraphHook where
  "ex_graphHook =
     \<lparr>rawData = None, isLoading = False, error = None, fetchInProgressRef = False\<rparr>"

definition ex_localHook :: LocalGraphHook where
  "ex_localHook =
     \<lparr>local_rawData = None, local_isLoading = False, local_error = None,
      local_currentPathRef = None\<rparr>"

definition ex_graphCache :: GraphCache where
  "ex_graphCache =
     [''full'' \<mapsto> \<lparr>data_g = ex_graph, timestamp_g = 1000\<rparr>,
      ''local:A.md:1'' \<mapsto> \<lparr>data_g = ex_graph, timestamp_g = 1000\<rparr>]"

definition ex_linkFromC :: LinkInfo where
  "ex_linkFromC = \<lparr>link_path = ''C.md'', link_title = ''C'', link_text = None\<rparr>"

definition ex_linkFromD :: LinkInfo where
  "ex_linkFromD = \<lparr>link_path = ''D.md'', link_title = ''D'', link_text = None\<rparr>"

definition ex_linksCache :: LinksCache where
  "ex_linksCache =
     [''A.md'' \<mapsto> \<lparr>backlinks_e = [ex_linkFromC], outgoingLinks_e = [], timestamp_l = 1000\<rparr>]"

text \<open>The backend's answers: \<open>C.md\<close> links to \<open>A.md\<close>, \<open>D.md\<close> links to \<open>B.md\<close>.\<close>

definition ex_answerA :: "thrown + LinksResponse \<times> LinksResponse" where
  "ex_answerA =
     Inr (\<lparr>resp_path = ''A.md'', links = [ex_linkFromC]\<rparr>, \<lparr>resp_path = ''A.md'', links = []\<rparr>)"

definition ex_answerB :: "thrown + LinksResponse \<times> LinksResponse" where
  "ex_answerB =
     Inr (\<lparr>resp_path = ''B.md'', links = [ex_linkFromD]\<rparr>, \<lparr>resp_path = ''B.md'', links = []\<rparr>)"

text \<open>The user opens \<open>B.md\<close>, whose links arrive and are cached; opens \<open>A.md\<close>; goes
  back to \<open>B.md\<close> while the request for \<open>A.md\<close> is still out.\<close>

definition ex_backToB :: "links_event list" where
  "ex_backToB =
     [CallFetchLinks (Some ''B.md'') 0, SettleLinks ''B.md'' ex_answerB 50,
      CallFetchLinks (Some ''A.md'') 1000, CallFetchLinks (Some ''B.md'') 1100]"

section \<open>Properties of the filter/transform stage\<close>

subsection \<open>Auxiliary facts\<close>

lemma ratio_bounds:
  assumes "0 \<le> c" "c \<le> m" "m \<noteq> 0"
  shows "0 \<le> real_of_int c / real_of_int m" "real_of_int c / real_of_int m \<le> 1"
proof -
  from assms have m: "0 < real_of_int m" by simp
  from assms show "0 \<le> real_of_int c / real_of_int m" by simp
  from assms m show "real_of_int c / real_of_int m \<le> 1" by (simp add: divide_le_eq_1_pos)
qed

lemma calc_unfold:
  "m \<noteq> 0 \<Longrightarrow> calculateNodeSize c m = 4 + 16 * (real_of_int c / real_of_int m)"
  by (simp add: calculateNodeSize_def Let_def)

lemma calc_bounds:
  assumes "0 \<le> c" "c \<le> m"
  shows "4 \<le> calculateNodeSize c m \<and> calculateNodeSize c m \<le> 20"
proof (cases "m = 0")
  case True
  then show ?thesis by (simp add: calculateNodeSize_def)
next
  case False
  define r where "r = real_of_int c / real_of_int m"
  from ratio_bounds[OF assms False] have "0 \<le> r" "r \<le> 1" by (simp_all add: r_def)
  then have "4 \<le> 4 + 16 * r \<and> 4 + 16 * r \<le> 20" by simp
  then show ?thesis unfolding r_def calc_unfold[OF False] .
qed

lemma calc_mono:
  assumes "0 \<le> m" "c \<le> c'"
  shows "calculateNodeSize c m \<le> calculateNodeSize c' m"
proof (cases "m = 0")
  case True
  then show ?thesis by (simp add: calculateNodeSize_def)
next
  case False
  define r where "r = real_of_int c / real_of_int m"
  define r' where "r' = real_of_int c' / real_of_int m"
  from False assms have "0 < real_of_int m" by simp
  with assms have "r \<le> r'" unfolding r_def r'_def
    by (simp add: divide_right_mono)
  then have "4 + 16 * r \<le> 4 + 16 * r'" by simp
  then show ?thesis unfolding r_def r'_def calc_unfold[OF False] .
qed

lemma foldr_max_ge_init: "(d::int) \<le> foldr max xs d"
  by (induction xs) auto

lemma foldr_max_ge_elem: "(x::int) \<in> set xs \<Longrightarrow> x \<le> foldr max xs d"
  by (induction xs) auto

lemma maxConnections_ge:
  "g \<in> set (nodes data) \<Longrightarrow> connections g \<le> maxConnectionsOf data"
  unfolding maxConnectionsOf_def by (rule foldr_max_ge_elem) simp

lemma filteredNodes_subset: "set (filteredNodes data filters) \<subseteq> set (nodes data)"
  by (auto simp: filteredNodes_def firstFilteredNodes_def)

lemma d3_nodes_transform:
  "d3_nodes (transformToD3 data filters cp) =
     map (toD3Node (maxConnectionsOf data) cp) (filteredNodes data filters)"
  by (simp add: transformToD3_def Let_def)

lemma toD3Edge_copies: "toD3Edge = (\<lambda>e. e)"
  by (rule ext) (simp add: toD3Edge_def)

lemma d3_edges_transform:
  "d3_edges (transformToD3 data filters cp) = filteredEdges data filters"
  by (simp add: transformToD3_def Let_def toD3Edge_copies)

lemma truncate_toD3Node: "GraphNode.truncate (toD3Node m cp g) = g"
  by (simp add: toD3Node_def GraphNode.truncate_def GraphNode.extend_def)

lemma toD3Node_fields:
  "node_id (toD3Node m cp g) = node_id g"
  "connections (toD3Node m cp g) = connections g"
  "size_d3 (toD3Node m cp g) = calculateNodeSize (connections g) m"
  "tags (toD3Node m cp g) = None"
  by (simp_all add: toD3Node_def GraphNode.extend_def D3Node.fields_def)

lemma edge_endpoints_kept:
  assumes "e \<in> set (filteredEdges data filters)"
  shows "source e \<in> node_id ` set (filteredNodes data filters)
       \<and> target e \<in> node_id ` set (filteredNodes data filters)"
proof -
  from assms have v: "source e \<in> validNodeIds data filters"
      "target e \<in> validNodeIds data filters"
    by (auto simp: filteredEdges_def edgePasses_def split: if_splits)
  from assms have c: "source e \<in> connectedIds (filteredEdges data filters)"
      "target e \<in> connectedIds (filteredEdges data filters)"
    by (auto simp: connectedIds_def)
  from v obtain a b where a: "a \<in> set (firstFilteredNodes data filters)" "node_id a = source e"
    and b: "b \<in> set (firstFilteredNodes data filters)" "node_id b = target e"
    by (auto simp: validNodeIds_def)
  from a c(1) have "a \<in> set (filteredNodes data filters)" by (simp add: filteredNodes_def)
  moreover from b c(2) have "b \<in> set (filteredNodes data filters)"
    by (simp add: filteredNodes_def)
  ultimately show ?thesis using a(2) b(2) by (metis imageI)
qed

text \<open>The second pass of the orphan filter removes nothing when no connection count is
  negative: a node it could remove has a count of zero, and the first pass has removed
  it already.\<close>

lemma second_orphan_pass_keeps_all:
  assumes "\<And>n. n \<in> set (nodes data) \<Longrightarrow> 0 \<le> connections n"
  shows "filteredNodes data filters = firstFilteredNodes data filters"
proof (cases "orDefault (showOrphans filters) True")
  case True
  then show ?thesis by (simp add: filteredNodes_def)
next
  case False
  have "\<And>n. n \<in> set (firstFilteredNodes data filters) \<Longrightarrow> connections n > 0"
  proof -
    fix n assume n: "n \<in> set (firstFilteredNodes data filters)"
    with False have "connections n \<noteq> 0"
      by (auto simp: firstFilteredNodes_def nodePasses_def split: if_splits)
    moreover from n have "0 \<le> connections n"
      using assms by (simp add: firstFilteredNodes_def)
    ultimately show "connections n > 0" by simp
  qed
  then show ?thesis by (simp add: filteredNodes_def)
qed

text \<open>The \<open>tag\<close> field of the filters is never read.\<close>

lemma nodePasses_ignores_tag: "nodePasses (filters\<lparr>tag := t\<rparr>) = nodePasses filters"
  by (rule ext) (simp add: nodePasses_def)

lemma edgePasses_ignores_tag:
  "edgePasses valid (filters\<lparr>tag := t\<rparr>) = edgePasses valid filters"
  by (rule ext) (simp add: edgePasses_def)

lemma firstFilteredNodes_ignores_tag:
  "firstFilteredNodes data (filters\<lparr>tag := t\<rparr>) = firstFilteredNodes data filters"
  by (simp add: firstFilteredNodes_def nodePasses_ignores_tag)

lemma validNodeIds_ignores_tag:
  "validNodeIds data (filters\<lparr>tag := t\<rparr>) = validNodeIds data filters"
  by (simp add: validNodeIds_def firstFilteredNodes_ignores_tag)

lemma filteredEdges_ignores_tag:
  "filteredEdges data (filters\<lparr>tag := t\<rparr>) = filteredEdges data filters"
  by (simp add: filteredEdges_def validNodeIds_ignores_tag edgePasses_ignores_tag)

lemma filteredNodes_ignores_tag:
  "filteredNodes data (filters\<lparr>tag := t\<rparr>) = filteredNodes data filters"
  by (simp add: filteredNodes_def firstFilteredNodes_ignores_tag filteredEdges_ignores_tag)

lemma transformToD3_ignores_tag:
  "transformToD3 data (filters\<lparr>tag := t\<rparr>) centerPath = transformToD3 data filters centerPath"
  by (simp add: transformToD3_def filteredNodes_ignores_tag filteredEdges_ignores_tag
      validNodeIds_ignores_tag)

lemmas ex_graph_defs =
  ex_graph_def ex_noteA_def ex_conceptC_def ex_edgeAC_def ex_noFilters_def ex_hideConcepts_def
  ex_hideConceptsAndOrphans_def ex_tagFilter_def

lemmas transform_defs =
  transformToD3_def filteredNodes_def filteredEdges_def firstFilteredNodes_def validNodeIds_def
  nodePasses_def edgePasses_def connectedIds_def orDefault_def truthy_def toD3Node_def
  toD3Edge_def maxConnectionsOf_def GraphNode.extend_def GraphNode.truncate_def
  D3Node.fields_def Let_def

subsection \<open>C1: orphan pruning after the edge filters\<close>

text \<open>
  C1. The claim: orphans are pruned by the edges that remain after the other filters, so
  a note whose only edges are concept edges is absent from the result when
  \<open>showConceptLinks = false\<close> and \<open>showOrphans = false\<close>. The code keeps it: the second
  pass keeps a node that is an endpoint of a kept edge \<^emph>\<open>or\<close> has a positive connection
  count in the input, and the note's count is 1. On the example graph (note \<open>A.md\<close>,
  concept \<open>C\<close>, one concept edge) with both switches off, the result has both nodes and
  no edge.
\<close>

theorem orphan_pruning_keeps_concept_only_note:
  "map node_id (d3_nodes (transformToD3 ex_graph ex_hideConceptsAndOrphans None))
     = [''A.md'', ''concept:C'']
   \<and> d3_edges (transformToD3 ex_graph ex_hideConceptsAndOrphans None) = []
   \<and> edges ex_graph = [ex_edgeAC] \<and> edgeType ex_edgeAC = concept_edge"
  by (simp add: transform_defs ex_graph_defs)

subsection \<open>C2: connection counts of the result\<close>

text \<open>
  C2, the claim as stated fails: with concept links hidden the example's note \<open>A.md\<close>
  is in the result with connection count 1, and no edge of the result touches it.
\<close>

theorem connection_count_not_rederived:
  "toD3Node 1 None ex_noteA \<in> set (d3_nodes (transformToD3 ex_graph ex_hideConcepts None))
   \<and> connections (toD3Node 1 None ex_noteA) = 1
   \<and> edgesTouching (d3_edges (transformToD3 ex_graph ex_hideConcepts None))
        (node_id (toD3Node 1 None ex_noteA)) = 0"
  by (simp add: transform_defs ex_graph_defs edgesTouching_def)

text \<open>
  C2, amended: every node of the result is a node of the input with the D3 fields added
  (the spread \<open>...node\<close>); its connection count is the input node's count, copied, and
  its size is computed from that count.
\<close>

theorem connection_count_copied:
  "\<forall>n \<in> set (d3_nodes (transformToD3 data filters centerPath)).
     \<exists>g \<in> set (nodes data).
       GraphNode.truncate n = g \<and> connections n = connections g
       \<and> size_d3 n = calculateNodeSize (connections g) (maxConnectionsOf data)"
proof
  fix n
  assume "n \<in> set (d3_nodes (transformToD3 data filters centerPath))"
  then obtain g where g: "g \<in> set (filteredNodes data filters)"
    and n: "n = toD3Node (maxConnectionsOf data) centerPath g"
    by (auto simp: d3_nodes_transform)
  from g have "g \<in> set (nodes data)" using filteredNodes_subset by blast
  moreover from n have "GraphNode.truncate n = g" by (simp add: truncate_toD3Node)
  moreover from n have "connections n = connections g" by (simp add: toD3Node_fields)
  moreover from n have "size_d3 n = calculateNodeSize (connections g) (maxConnectionsOf data)"
    by (simp add: toD3Node_fields)
  ultimately show "\<exists>g \<in> set (nodes data).
       GraphNode.truncate n = g \<and> connections n = connections g
       \<and> size_d3 n = calculateNodeSize (connections g) (maxConnectionsOf data)"
    by blast
qed

theorem connection_count_copied_witness:
  "toD3Node 1 None ex_noteA \<in> set (d3_nodes (transformToD3 ex_graph ex_hideConcepts None))
   \<and> (\<exists>g \<in> set (nodes ex_graph).
         GraphNode.truncate (toD3Node 1 None ex_noteA) = g
         \<and> connections (toD3Node 1 None ex_noteA) = connections g
         \<and> size_d3 (toD3Node 1 None ex_noteA)
             = calculateNodeSize (connections g) (maxConnectionsOf ex_graph))"
proof -
  have m: "toD3Node 1 None ex_noteA
             \<in> set (d3_nodes (transformToD3 ex_graph ex_hideConcepts None))"
    by (simp add: transform_defs ex_graph_defs)
  with connection_count_copied[of ex_graph ex_hideConcepts None] show ?thesis by blast
qed

subsection \<open>C3: the tag filter\<close>

text \<open>
  C3. The claim: with the filter's \<open>tag\<close> set, only nodes carrying the tag are in the
  result. The transform never reads \<open>tag\<close> and takes no tag data: on the example graph
  with \<open>tag = "project"\<close> both nodes are in the result, and no node of the result has
  tags at all.
\<close>

theorem tag_filter_keeps_untagged_nodes:
  "tag ex_tagFilter = Some ''project''
   \<and> map node_id (d3_nodes (transformToD3 ex_graph ex_tagFilter None))
       = [''A.md'', ''concept:C'']
   \<and> map tags (d3_nodes (transformToD3 ex_graph ex_tagFilter None)) = [None, None]"
  by (simp add: transform_defs ex_graph_defs)

subsection \<open>C9: no dangling edge\<close>

text \<open>
  C9. Every edge of the result of \<open>transformToD3\<close> has its source id and its target id
  among the ids of the result's nodes, for every input graph, filter setting and center.
\<close>

theorem transformToD3_no_dangling_edge:
  "\<forall>e \<in> set (d3_edges (transformToD3 data filters centerPath)).
     source e \<in> node_id ` set (d3_nodes (transformToD3 data filters centerPath))
     \<and> target e \<in> node_id ` set (d3_nodes (transformToD3 data filters centerPath))"
proof
  fix e
  assume "e \<in> set (d3_edges (transformToD3 data filters centerPath))"
  then have "e \<in> set (filteredEdges data filters)" by (simp add: d3_edges_transform)
  from edge_endpoints_kept[OF this]
  have "source e \<in> node_id ` set (filteredNodes data filters)"
    and "target e \<in> node_id ` set (filteredNodes data filters)" by simp_all
  moreover have "node_id ` set (d3_nodes (transformToD3 data filters centerPath))
      = node_id ` set (filteredNodes data filters)"
    by (simp add: d3_nodes_transform image_image toD3Node_fields)
  ultimately show "source e \<in> node_id ` set (d3_nodes (transformToD3 data filters centerPath))
     \<and> target e \<in> node_id ` set (d3_nodes (transformToD3 data filters centerPath))"
    by simp
qed

theorem transformToD3_no_dangling_edge_witness:
  "ex_edgeAC \<in> set (d3_edges (transformToD3 ex_graph ex_noFilters None))
   \<and> source ex_edgeAC \<in> node_id ` set (d3_nodes (transformToD3 ex_graph ex_noFilters None))
   \<and> target ex_edgeAC \<in> node_id ` set (d3_nodes (transformToD3 ex_graph ex_noFilters None))"
proof -
  have m: "ex_edgeAC \<in> set (d3_edges (transformToD3 ex_graph ex_noFilters None))"
    by (simp add: transform_defs ex_graph_defs)
  with transformToD3_no_dangling_edge[of ex_graph ex_noFilters None] show ?thesis by blast
qed

subsection \<open>C10: node sizes\<close>

text \<open>
  C10. For integers \<open>0 \<le> c \<le> m\<close>, \<open>calculateNodeSize c m\<close> lies in \<open>[4, 20]\<close>; it is 4
  when \<open>m = 0\<close>; it does not decrease when \<open>c\<close> grows, \<open>m\<close> fixed. Hence a node of the
  result of the transform with a connection count that is not negative has that count at
  most the maximum used for scaling, and a size between 4 and 20.
\<close>

theorem node_size_bounds:
  "(0 \<le> c \<and> c \<le> m \<longrightarrow> 4 \<le> calculateNodeSize c m \<and> calculateNodeSize c m \<le> 20)
   \<and> calculateNodeSize c 0 = 4
   \<and> (0 \<le> c \<and> c \<le> c' \<and> c' \<le> m \<longrightarrow> calculateNodeSize c m \<le> calculateNodeSize c' m)
   \<and> (\<forall>n \<in> set (d3_nodes (transformToD3 data filters centerPath)).
         0 \<le> connections n \<longrightarrow>
           connections n \<le> maxConnectionsOf data \<and> 4 \<le> size_d3 n \<and> size_d3 n \<le> 20)"
proof -
  have a: "0 \<le> c \<and> c \<le> m \<longrightarrow> 4 \<le> calculateNodeSize c m \<and> calculateNodeSize c m \<le> 20"
    using calc_bounds by blast
  have b: "calculateNodeSize c 0 = 4" by (simp add: calculateNodeSize_def)
  have c: "0 \<le> c \<and> c \<le> c' \<and> c' \<le> m \<longrightarrow> calculateNodeSize c m \<le> calculateNodeSize c' m"
  proof
    assume h: "0 \<le> c \<and> c \<le> c' \<and> c' \<le> m"
    then have "0 \<le> m" by simp
    with h show "calculateNodeSize c m \<le> calculateNodeSize c' m" by (simp add: calc_mono)
  qed
  have d: "\<forall>n \<in> set (d3_nodes (transformToD3 data filters centerPath)).
         0 \<le> connections n \<longrightarrow>
           connections n \<le> maxConnectionsOf data \<and> 4 \<le> size_d3 n \<and> size_d3 n \<le> 20"
  proof (intro ballI impI)
    fix n
    assume "n \<in> set (d3_nodes (transformToD3 data filters centerPath))"
      and nn: "0 \<le> connections n"
    then obtain g where g: "g \<in> set (filteredNodes data filters)"
      and n: "n = toD3Node (maxConnectionsOf data) centerPath g"
      by (auto simp: d3_nodes_transform)
    from g have "g \<in> set (nodes data)" using filteredNodes_subset by blast
    then have le: "connections g \<le> maxConnectionsOf data" by (rule maxConnections_ge)
    from nn n have "0 \<le> connections g" by (simp add: toD3Node_fields)
    from calc_bounds[OF this le] le
    show "connections n \<le> maxConnectionsOf data \<and> 4 \<le> size_d3 n \<and> size_d3 n \<le> 20"
      by (simp add: n toD3Node_fields)
  qed
  from a b c d show ?thesis by blast
qed

theorem node_size_bounds_witness:
  "(0::int) \<le> 1 \<and> (1::int) \<le> 2 \<and> (2::int) \<le> 2
   \<and> 4 \<le> calculateNodeSize 1 2 \<and> calculateNodeSize 1 2 \<le> 20
   \<and> calculateNodeSize 1 0 = 4
   \<and> calculateNodeSize 1 2 \<le> calculateNodeSize 2 2
   \<and> toD3Node 1 None ex_noteA \<in> set (d3_nodes (transformToD3 ex_graph ex_noFilters None))
   \<and> 0 \<le> connections (toD3Node 1 None ex_noteA)
   \<and> connections (toD3Node 1 None ex_noteA) \<le> maxConnectionsOf ex_graph
   \<and> 4 \<le> size_d3 (toD3Node 1 None ex_noteA) \<and> size_d3 (toD3Node 1 None ex_noteA) \<le> 20"
proof -
  have m: "toD3Node 1 None ex_noteA
             \<in> set (d3_nodes (transformToD3 ex_graph ex_noFilters None))"
    by (simp add: transform_defs ex_graph_defs)
  have p: "0 \<le> connections (toD3Node 1 None ex_noteA)"
    by (simp add: toD3Node_fields ex_noteA_def)
  from node_size_bounds[of 1 2 2 ex_graph ex_noFilters None] m p show ?thesis by auto
qed

section \<open>Properties of the caches and the fetching hooks\<close>

subsection \<open>Auxiliary facts\<close>

lemma graph_lookup:
  assumes "\<not> fetchInProgressRef h"
  shows "(fst (fetchGraph_begin now cache h) = Returned \<longleftrightarrow>
           (\<exists>e. cache ''full'' = Some e \<and> entryValid now (timestamp_g e) 60000))
       \<and> (fst (fetchGraph_begin now cache h) = Returned
            \<or> fst (fetchGraph_begin now cache h) = Awaiting get_graph_data)
       \<and> (\<forall>e. cache ''full'' = Some e \<and> entryValid now (timestamp_g e) 60000 \<longrightarrow>
            rawData (snd (fetchGraph_begin now cache h)) = Some (data_g e))"
  using assms
  by (auto simp: fetchGraph_begin_def entryValid_def CACHE_TTL_graph_def split: option.splits)

lemma local_lookup:
  assumes "truthy cp"
  shows "(fst (fetchLocalGraph_begin cp depth now cache h) = Returned \<longleftrightarrow>
           (\<exists>e. cache (localCacheKey (the cp) depth) = Some e
                \<and> entryValid now (timestamp_g e) 60000))
       \<and> (fst (fetchLocalGraph_begin cp depth now cache h) = Returned
            \<or> fst (fetchLocalGraph_begin cp depth now cache h)
                = Awaiting (get_local_graph (the cp) depth))
       \<and> (\<forall>e. cache (localCacheKey (the cp) depth) = Some e
                \<and> entryValid now (timestamp_g e) 60000 \<longrightarrow>
            local_rawData (snd (fetchLocalGraph_begin cp depth now cache h))
              = Some (data_g e))"
  using assms
  by (auto simp: fetchLocalGraph_begin_def entryValid_def CACHE_TTL_graph_def Let_def
      split: option.splits)

lemma links_lookup:
  assumes "truthy pa"
  shows "(fst (fetchLinks_begin pa now cache h) = Returned \<longleftrightarrow>
           (\<exists>e. cache (the pa) = Some e \<and> entryValid now (timestamp_l e) 30000))
       \<and> (fst (fetchLinks_begin pa now cache h) = Returned
            \<or> fst (fetchLinks_begin pa now cache h) = Awaiting (get_links (the pa)))
       \<and> (\<forall>e. cache (the pa) = Some e \<and> entryValid now (timestamp_l e) 30000 \<longrightarrow>
            backlinks (snd (fetchLinks_begin pa now cache h)) = backlinks_e e
          \<and> outgoingLinks (snd (fetchLinks_begin pa now cache h)) = outgoingLinks_e e)"
  using assms
  by (auto simp: fetchLinks_begin_def entryValid_def CACHE_TTL_links_def Let_def
      split: option.splits)

lemmas links_eval =
  links_run_def links_init_def ex_backToB_def ex_answerA_def ex_answerB_def
  fetchLinks_begin_def fetchLinks_settle_def truthy_def CACHE_TTL_links_def Let_def
  ex_linkFromC_def ex_linkFromD_def ex_linksCache_def

lemmas graph_eval =
  fetchGraph_begin_def fetchGraph_settle_def fetchLocalGraph_begin_def
  fetchLocalGraph_settle_def truthy_def CACHE_TTL_graph_def Let_def localCacheKey_def
  showInt_def ex_graphHook_def ex_localHook_def ex_graphCache_def

subsection \<open>C4: validity of a cache entry\<close>

text \<open>
  C4. When a fetch function looks its key up (\<open>fetchGraph\<close> with no fetch in progress;
  \<open>fetchLocalGraph\<close> and \<open>fetchLinks\<close> with a path), it returns without a backend
  request exactly when the cache holds an entry for the key with
  \<open>now - timestamp < TTL\<close>, and then the state holds that entry's payload; otherwise it
  issues the backend request, the recomputation. The TTL is 60000 ms for the key
  \<open>full\<close> and for the keys \<open>local:center:depth\<close>, and 30000 ms for a path's link
  lists.
\<close>

theorem cache_entry_returned_iff_valid:
  "(\<not> fetchInProgressRef gh \<longrightarrow>
      (fst (fetchGraph_begin now gcache gh) = Returned \<longleftrightarrow>
         (\<exists>e. gcache ''full'' = Some e \<and> entryValid now (timestamp_g e) 60000))
      \<and> (fst (fetchGraph_begin now gcache gh) = Returned
           \<or> fst (fetchGraph_begin now gcache gh) = Awaiting get_graph_data)
      \<and> (\<forall>e. gcache ''full'' = Some e \<and> entryValid now (timestamp_g e) 60000 \<longrightarrow>
            rawData (snd (fetchGraph_begin now gcache gh)) = Some (data_g e)))
   \<and> (truthy centerPath \<longrightarrow>
      (fst (fetchLocalGraph_begin centerPath depth now gcache lh) = Returned \<longleftrightarrow>
         (\<exists>e. gcache (localCacheKey (the centerPath) depth) = Some e
              \<and> entryValid now (timestamp_g e) 60000))
      \<and> (fst (fetchLocalGraph_begin centerPath depth now gcache lh) = Returned
           \<or> fst (fetchLocalGraph_begin centerPath depth now gcache lh)
               = Awaiting (get_local_graph (the centerPath) depth))
      \<and> (\<forall>e. gcache (localCacheKey (the centerPath) depth) = Some e
              \<and> entryValid now (timestamp_g e) 60000 \<longrightarrow>
            local_rawData (snd (fetchLocalGraph_begin centerPath depth now gcache lh))
              = Some (data_g e)))
   \<and> (truthy path_arg \<longrightarrow>
      (fst (fetchLinks_begin path_arg now lcache h) = Returned \<longleftrightarrow>
         (\<exists>e. lcache (the path_arg) = Some e \<and> entryValid now (timestamp_l e) 30000))
      \<and> (fst (fetchLinks_begin path_arg now lcache h) = Returned
           \<or> fst (fetchLinks_begin path_arg now lcache h) = Awaiting (get_links (the path_arg)))
      \<and> (\<forall>e. lcache (the path_arg) = Some e \<and> entryValid now (timestamp_l e) 30000 \<longrightarrow>
            backlinks (snd (fetchLinks_begin path_arg now lcache h)) = backlinks_e e
            \<and> outgoingLinks (snd (fetchLinks_begin path_arg now lcache h))
                = outgoingLinks_e e))"
proof (intro conjI impI)
  assume a: "\<not> fetchInProgressRef gh"
  from graph_lookup[OF a, of now gcache]
  show "fst (fetchGraph_begin now gcache gh) = Returned \<longleftrightarrow>
         (\<exists>e. gcache ''full'' = Some e \<and> entryValid now (timestamp_g e) 60000)"
    and "fst (fetchGraph_begin now gcache gh) = Returned
           \<or> fst (fetchGraph_begin now gcache gh) = Awaiting get_graph_data"
    and "\<forall>e. gcache ''full'' = Some e \<and> entryValid now (timestamp_g e) 60000 \<longrightarrow>
            rawData (snd (fetchGraph_begin now gcache gh)) = Some (data_g e)"
    by blast+
next
  assume a: "truthy centerPath"
  from local_lookup[OF a, of depth now gcache lh]
  show "fst (fetchLocalGraph_begin centerPath depth now gcache lh) = Returned \<longleftrightarrow>
         (\<exists>e. gcache (localCacheKey (the centerPath) depth) = Some e
              \<and> entryValid now (timestamp_g e) 60000)"
    and "fst (fetchLocalGraph_begin centerPath depth now gcache lh) = Returned
           \<or> fst (fetchLocalGraph_begin centerPath depth now gcache lh)
               = Awaiting (get_local_graph (the centerPath) depth)"
    and "\<forall>e. gcache (localCacheKey (the centerPath) depth) = Some e
              \<and> entryValid now (timestamp_g e) 60000 \<longrightarrow>
            local_rawData (snd (fetchLocalGraph_begin centerPath depth now gcache lh))
              = Some (data_g e)"
    by blast+
next
  assume a: "truthy path_arg"
  from links_lookup[OF a, of now lcache h]
  show "fst (fetchLinks_begin path_arg now lcache h) = Returned \<longleftrightarrow>
         (\<exists>e. lcache (the path_arg) = Some e \<and> entryValid now (timestamp_l e) 30000)"
    and "fst (fetchLinks_begin path_arg now lcache h) = Returned
           \<or> fst (fetchLinks_begin path_arg now lcache h) = Awaiting (get_links (the path_arg))"
    and "\<forall>e. lcache (the path_arg) = Some e \<and> entryValid now (timestamp_l e) 30000 \<longrightarrow>
            backlinks (snd (fetchLinks_begin path_arg now lcache h)) = backlinks_e e
            \<and> outgoingLinks (snd (fetchLinks_begin path_arg now lcache h))
                = outgoingLinks_e e"
    by blast+
qed

text \<open>The example caches hold entries stamped 1000. At 30999 all three lookups return
  the entry; at 61000 the graph entries have expired and at 31000 the link entry has.\<close>

theorem cache_entry_returned_iff_valid_witness:
  "\<not> fetchInProgressRef ex_graphHook \<and> truthy (Some ''A.md'')
   \<and> ex_graphCache ''full'' = Some \<lparr>data_g = ex_graph, timestamp_g = 1000\<rparr>
   \<and> ex_graphCache (localCacheKey ''A.md'' 1) = Some \<lparr>data_g = ex_graph, timestamp_g = 1000\<rparr>
   \<and> entryValid 30999 1000 60000 \<and> entryValid 30999 1000 30000
   \<and> fst (fetchGraph_begin 30999 ex_graphCache ex_graphHook) = Returned
   \<and> rawData (snd (fetchGraph_begin 30999 ex_graphCache ex_graphHook)) = Some ex_graph
   \<and> fst (fetchLocalGraph_begin (Some ''A.md'') 1 30999 ex_graphCache ex_localHook) = Returned
   \<and> local_rawData (snd (fetchLocalGraph_begin (Some ''A.md'') 1 30999 ex_graphCache
                            ex_localHook)) = Some ex_graph
   \<and> fst (fetchLinks_begin (Some ''A.md'') 30999 ex_linksCache (sys_hook links_init)) = Returned
   \<and> backlinks (snd (fetchLinks_begin (Some ''A.md'') 30999 ex_linksCache
                        (sys_hook links_init))) = [ex_linkFromC]
   \<and> \<not> entryValid 61000 1000 60000 \<and> \<not> entryValid 31000 1000 30000
   \<and> fst (fetchGraph_begin 61000 ex_graphCache ex_graphHook) = Awaiting get_graph_data
   \<and> fst (fetchLocalGraph_begin (Some ''A.md'') 1 61000 ex_graphCache ex_localHook)
       = Awaiting (get_local_graph ''A.md'' 1)
   \<and> fst (fetchLinks_begin (Some ''A.md'') 31000 ex_linksCache (sys_hook links_init))
       = Awaiting (get_links ''A.md'')"
proof -
  have h: "\<not> fetchInProgressRef ex_graphHook" "truthy (Some ''A.md'')"
    by (simp_all add: ex_graphHook_def truthy_def)
  have g: "ex_graphCache ''full'' = Some \<lparr>data_g = ex_graph, timestamp_g = 1000\<rparr>"
    "ex_graphCache (localCacheKey ''A.md'' 1) = Some \<lparr>data_g = ex_graph, timestamp_g = 1000\<rparr>"
    by (simp_all add: ex_graphCache_def localCacheKey_def showInt_def)
  have l: "ex_linksCache ''A.md''
      = Some \<lparr>backlinks_e = [ex_linkFromC], outgoingLinks_e = [], timestamp_l = 1000\<rparr>"
    by (simp add: ex_linksCache_def)
  have v: "entryValid 30999 1000 60000" "entryValid 30999 1000 30000"
    "\<not> entryValid 61000 1000 60000" "\<not> entryValid 31000 1000 30000"
    by (simp_all add: entryValid_def)
  note fresh = cache_entry_returned_iff_valid[of ex_graphHook 30999 ex_graphCache
      "Some ''A.md''" 1 ex_localHook "Some ''A.md''" ex_linksCache "sys_hook links_init"]
  note stale_g = cache_entry_returned_iff_valid[of ex_graphHook 61000 ex_graphCache
      "Some ''A.md''" 1 ex_localHook "Some ''A.md''" ex_linksCache "sys_hook links_init"]
  note stale_l = cache_entry_returned_iff_valid[of ex_graphHook 31000 ex_graphCache
      "Some ''A.md''" 1 ex_localHook "Some ''A.md''" ex_linksCache "sys_hook links_init"]
  from fresh h g l v(1,2)
  have f: "fst (fetchGraph_begin 30999 ex_graphCache ex_graphHook) = Returned"
    "rawData (snd (fetchGraph_begin 30999 ex_graphCache ex_graphHook)) = Some ex_graph"
    "fst (fetchLocalGraph_begin (Some ''A.md'') 1 30999 ex_graphCache ex_localHook) = Returned"
    "local_rawData (snd (fetchLocalGraph_begin (Some ''A.md'') 1 30999 ex_graphCache
                            ex_localHook)) = Some ex_graph"
    "fst (fetchLinks_begin (Some ''A.md'') 30999 ex_linksCache (sys_hook links_init)) = Returned"
    "backlinks (snd (fetchLinks_begin (Some ''A.md'') 30999 ex_linksCache
                        (sys_hook links_init))) = [ex_linkFromC]"
    by auto
  from stale_g h g v(3)
  have s1: "fst (fetchGraph_begin 61000 ex_graphCache ex_graphHook) = Awaiting get_graph_data"
    "fst (fetchLocalGraph_begin (Some ''A.md'') 1 61000 ex_graphCache ex_localHook)
       = Awaiting (get_local_graph ''A.md'' 1)"
    by auto
  from stale_l h l v(4)
  have s2: "fst (fetchLinks_begin (Some ''A.md'') 31000 ex_linksCache (sys_hook links_init))
       = Awaiting (get_links ''A.md'')"
    by auto
  from h g v f s1 s2 show ?thesis by simp
qed

subsection \<open>C7: a response for a path that has been left\<close>

text \<open>
  C7. The claim: a backend response is committed only if the path it answers is the path
  of interest when it arrives. The code compares with \<open>currentPathRef\<close>, which it sets
  only on a cache miss. In the example the user has gone from \<open>A.md\<close> back to \<open>B.md\<close>,
  whose links come from the cache, while the request for \<open>A.md\<close> is out: the hook
  shows the backlinks of \<open>B.md\<close>. Then the answer for \<open>A.md\<close> arrives: the hook's
  path is still \<open>B.md\<close>, and its backlinks are now those of \<open>A.md\<close>, loading is
  switched off and the answer is cached.
\<close>

theorem stale_links_response_is_applied:
  "sys_path (links_run ex_backToB links_init) = Some ''B.md''
   \<and> sys_inflight (links_run ex_backToB links_init) = [''A.md'']
   \<and> backlinks (sys_hook (links_run ex_backToB links_init)) = [ex_linkFromD]
   \<and> links_isLoading (sys_hook (links_run ex_backToB links_init))
   \<and> sys_path (links_run (ex_backToB @ [SettleLinks ''A.md'' ex_answerA 1200]) links_init)
       = Some ''B.md''
   \<and> backlinks
        (sys_hook (links_run (ex_backToB @ [SettleLinks ''A.md'' ex_answerA 1200]) links_init))
       = [ex_linkFromC]
   \<and> \<not> links_isLoading
        (sys_hook (links_run (ex_backToB @ [SettleLinks ''A.md'' ex_answerA 1200]) links_init))"
  by (simp add: links_eval)

text \<open>\<open>fetchLocalGraph\<close> has the same guard and the same gap: with the graph around
  \<open>A.md\<close> cached, a request for \<open>B.md\<close> goes out, the center goes back to \<open>A.md\<close>
  (a cache hit, \<open>currentPathRef\<close> stays \<open>B.md\<close>), and the answer for \<open>B.md\<close>
  replaces the data shown.\<close>

lemma stale_local_graph_response_is_applied:
  "local_rawData
     (snd (fetchLocalGraph_settle ''B.md'' 1 (Inr \<lparr>nodes = [], edges = [], concepts = []\<rparr>) 1300
        (ex_graphCache,
         snd (fetchLocalGraph_begin (Some ''A.md'') 1 1200 ex_graphCache
           (snd (fetchLocalGraph_begin (Some ''B.md'') 1 1100 ex_graphCache ex_localHook))))))
   = Some \<lparr>nodes = [], edges = [], concepts = []\<rparr>
   \<and> local_rawData
       (snd (fetchLocalGraph_begin (Some ''A.md'') 1 1200 ex_graphCache
          (snd (fetchLocalGraph_begin (Some ''B.md'') 1 1100 ex_graphCache ex_localHook))))
     = Some ex_graph"
  by (simp add: graph_eval)

subsection \<open>C8: requests for a key whose recomputation is in flight\<close>

text \<open>
  C8, the claim as stated fails. Two calls of \<open>fetchLinks\<close> for \<open>A.md\<close>, the second
  while the first request is out, leave two requests for \<open>A.md\<close> in flight. And a
  second call of \<open>fetchGraph\<close> while the first request is out does not wait for the
  result: it has returned, with no data in the state.
\<close>

theorem second_request_not_coalesced:
  "sys_inflight
     (links_run [CallFetchLinks (Some ''A.md'') 0, CallFetchLinks (Some ''A.md'') 10] links_init)
     = [''A.md'', ''A.md'']
   \<and> fst (fetchGraph_begin 0 Map.empty ex_graphHook) = Awaiting get_graph_data
   \<and> fst (fetchGraph_begin 10 Map.empty (snd (fetchGraph_begin 0 Map.empty ex_graphHook)))
       = Returned
   \<and> rawData
        (snd (fetchGraph_begin 10 Map.empty (snd (fetchGraph_begin 0 Map.empty ex_graphHook))))
       = None"
  by (simp add: links_eval graph_eval)

text \<open>
  C8, amended, for the full-graph key and one \<open>useGraph\<close> instance: a call of
  \<open>fetchGraph\<close> that finds no fetch in progress and no valid entry issues the backend
  request and marks the fetch as in progress; a call that finds a fetch in progress
  returns at once, issues no request and leaves the state as it is; when the request
  settles the mark is cleared, and on success the data is in the state and in the cache.
\<close>

theorem fetchGraph_single_flight:
  "(fetchInProgressRef h \<longrightarrow> fetchGraph_begin now cache h = (Returned, h))
   \<and> (\<not> fetchInProgressRef h
        \<and> \<not> (\<exists>e. cache ''full'' = Some e \<and> entryValid now (timestamp_g e) 60000) \<longrightarrow>
        fst (fetchGraph_begin now cache h) = Awaiting get_graph_data
        \<and> fetchInProgressRef (snd (fetchGraph_begin now cache h)))
   \<and> \<not> fetchInProgressRef (snd (fetchGraph_settle result now' (cache, h)))
   \<and> rawData (snd (fetchGraph_settle (Inr d) now' (cache, h))) = Some d
   \<and> fst (fetchGraph_settle (Inr d) now' (cache, h)) ''full''
       = Some \<lparr>data_g = d, timestamp_g = now'\<rparr>"
proof (intro conjI impI)
  assume "fetchInProgressRef h"
  then show "fetchGraph_begin now cache h = (Returned, h)"
    by (simp add: fetchGraph_begin_def)
next
  assume a: "\<not> fetchInProgressRef h
        \<and> \<not> (\<exists>e. cache ''full'' = Some e \<and> entryValid now (timestamp_g e) 60000)"
  then show "fst (fetchGraph_begin now cache h) = Awaiting get_graph_data"
    by (auto simp: fetchGraph_begin_def entryValid_def CACHE_TTL_graph_def
        split: option.splits)
  from a show "fetchInProgressRef (snd (fetchGraph_begin now cache h))"
    by (auto simp: fetchGraph_begin_def entryValid_def CACHE_TTL_graph_def
        split: option.splits)
next
  show "\<not> fetchInProgressRef (snd (fetchGraph_settle result now' (cache, h)))"
    by (simp add: fetchGraph_settle_def split: sum.splits)
next
  show "rawData (snd (fetchGraph_settle (Inr d) now' (cache, h))) = Some d"
    by (simp add: fetchGraph_settle_def)
next
  show "fst (fetchGraph_settle (Inr d) now' (cache, h)) ''full''
       = Some \<lparr>data_g = d, timestamp_g = now'\<rparr>"
    by (simp add: fetchGraph_settle_def)
qed

theorem fetchGraph_single_flight_witness:
  "\<not> fetchInProgressRef ex_graphHook
   \<and> \<not> (\<exists>e. (Map.empty :: GraphCache) ''full'' = Some e \<and> entryValid 0 (timestamp_g e) 60000)
   \<and> fst (fetchGraph_begin 0 Map.empty ex_graphHook) = Awaiting get_graph_data
   \<and> fetchInProgressRef (snd (fetchGraph_begin 0 Map.empty ex_graphHook))
   \<and> fetchGraph_begin 10 Map.empty (snd (fetchGraph_begin 0 Map.empty ex_graphHook))
       = (Returned, snd (fetchGraph_begin 0 Map.empty ex_graphHook))
   \<and> \<not> fetchInProgressRef
        (snd (fetchGraph_settle (Inr ex_graph) 20
                (Map.empty, snd (fetchGraph_begin 0 Map.empty ex_graphHook))))
   \<and> rawData
        (snd (fetchGraph_settle (Inr ex_graph) 20
                (Map.empty, snd (fetchGraph_begin 0 Map.empty ex_graphHook))))
       = Some ex_graph"
proof -
  let ?h1 = "snd (fetchGraph_begin 0 Map.empty ex_graphHook)"
  have a: "\<not> fetchInProgressRef ex_graphHook" by (simp add: ex_graphHook_def)
  have b: "\<not> (\<exists>e. (Map.empty :: GraphCache) ''full'' = Some e
                   \<and> entryValid 0 (timestamp_g e) 60000)"
    by simp
  from fetchGraph_single_flight[of ex_graphHook 0 Map.empty "Inr ex_graph" 20 ex_graph] a b
  have c: "fst (fetchGraph_begin 0 Map.empty ex_graphHook) = Awaiting get_graph_data"
    "fetchInProgressRef ?h1"
    by blast+
  from fetchGraph_single_flight[of ?h1 10 Map.empty "Inr ex_graph" 20 ex_graph] c(2)
  have d: "fetchGraph_begin 10 Map.empty ?h1 = (Returned, ?h1)"
    "\<not> fetchInProgressRef (snd (fetchGraph_settle (Inr ex_graph) 20 (Map.empty, ?h1)))"
    "rawData (snd (fetchGraph_settle (Inr ex_graph) 20 (Map.empty, ?h1))) = Some ex_graph"
    by blast+
  from a b c d show ?thesis by blast
qed

section \<open>Properties of the wikilink syntax\<close>

subsection \<open>Auxiliary facts\<close>

text \<open>What a successful match of a quantified class, a literal or an optional group
  says about the input.\<close>

lemma starGreedy_Some:
  "starGreedy P p s k = Some r \<Longrightarrow>
     \<exists>t s' p'. s = t @ s' \<and> (\<forall>x \<in> set t. P x) \<and> k p' s' = Some r"
proof (induction s arbitrary: p)
  case Nil
  then show ?case by auto
next
  case (Cons x s)
  show ?case
  proof (cases "P x \<and> starGreedy P (Some x) s k = Some r")
    case True
    with Cons.IH[of "Some x"] obtain t s' p' where
      "s = t @ s'" "\<forall>y \<in> set t. P y" "k p' s' = Some r" by blast
    with True have "x # s = (x # t) @ s' \<and> (\<forall>y \<in> set (x # t). P y) \<and> k p' s' = Some r"
      by simp
    then show ?thesis by blast
  next
    case False
    with Cons.prems have "k p (x # s) = Some r"
      by (auto split: if_splits option.splits)
    then have "x # s = [] @ (x # s) \<and> (\<forall>y \<in> set []. P y) \<and> k p (x # s) = Some r"
      by simp
    then show ?thesis by blast
  qed
qed

lemma rmatch_Lit_Some:
  assumes "rmatch (Lit l) p s c k = Some r" "l \<noteq> []"
  shows "\<exists>s'. s = l @ s' \<and> k (Some (last l)) s' c = Some r"
proof -
  from assms have sw: "take (length l) s = l"
    and k: "k (Some (last l)) (drop (length l) s) c = Some r"
    by (auto simp: startsWith_def split: if_splits)
  from sw have "s = l @ drop (length l) s" by (metis append_take_drop_id)
  with k show ?thesis by blast
qed

lemma rmatch_Cap_Plus_Some:
  assumes "rmatch (Cap n (Plus P)) p s c k = Some r"
  shows "\<exists>t s' p'. s = t @ s' \<and> t \<noteq> [] \<and> (\<forall>x \<in> set t. P x)
            \<and> k p' s' (c(n := Some t)) = Some r"
proof (cases s)
  case Nil
  with assms show ?thesis by simp
next
  case (Cons x s0)
  with assms have px: "P x"
    and sg: "starGreedy P (Some x) s0
               (\<lambda>p' s'. k p' s' (c(n := Some (take (length s - length s') s)))) = Some r"
    by (auto split: if_splits)
  from starGreedy_Some[OF sg] obtain t s' p' where
    s0: "s0 = t @ s'" and t: "\<forall>y \<in> set t. P y"
    and k: "k p' s' (c(n := Some (take (length s - length s') s))) = Some r" by blast
  from Cons s0 have "take (length s - length s') s = x # t" by simp
  with k px t Cons s0 have "s = (x # t) @ s' \<and> x # t \<noteq> [] \<and> (\<forall>y \<in> set (x # t). P y)
      \<and> k p' s' (c(n := Some (x # t))) = Some r" by simp
  then show ?thesis by blast
qed

lemma rmatch_Opt_Some:
  "rmatch (Opt r) p s c k = Some y \<Longrightarrow> rmatch r p s c k = Some y \<or> k p s c = Some y"
  by (auto split: option.splits)

text \<open>A match of \<open>wikilinkRegex\<close> is never empty and never longer than the input, and
  it has the shape of a wikilink.\<close>

lemma matchAt_wikilinkRegex:
  assumes "matchAt wikilinkRegex p s = Some (len, c)"
  shows "0 < len \<and> len \<le> length s \<and> wikilinkShape (take len s) c"
proof -
  let ?K = "\<lambda>(p'::char option) s' (c'::caps). Some (length s - length s', c')"
  let ?c0 = "(\<lambda>n. None) :: caps"
  from assms have m: "rmatch (Lit ''[['') p s ?c0
      (\<lambda>p1 s1 c1. rmatch (Cap 1 (Plus (noneOf '']|''))) p1 s1 c1
         (\<lambda>p2 s2 c2. rmatch (Opt (Seq (Lit ''|'') (Cap 2 (Plus (noneOf '']''))))) p2 s2 c2
            (\<lambda>p3 s3 c3. rmatch (Lit '']]'') p3 s3 c3 ?K))) = Some (len, c)"
    by (simp add: matchAt_def wikilinkRegex_def)
  from rmatch_Lit_Some[OF m] obtain s1 where s: "s = ''[['' @ s1"
    and m1: "rmatch (Cap 1 (Plus (noneOf '']|''))) (Some (last ''[['')) s1 ?c0
         (\<lambda>p2 s2 c2. rmatch (Opt (Seq (Lit ''|'') (Cap 2 (Plus (noneOf '']''))))) p2 s2 c2
            (\<lambda>p3 s3 c3. rmatch (Lit '']]'') p3 s3 c3 ?K)) = Some (len, c)"
    by blast
  from rmatch_Cap_Plus_Some[OF m1] obtain t s2 p2 where s1: "s1 = t @ s2" and t: "t \<noteq> []"
    "\<forall>x \<in> set t. noneOf '']|'' x"
    and m2: "rmatch (Opt (Seq (Lit ''|'') (Cap 2 (Plus (noneOf '']''))))) p2 s2
               (?c0(1 := Some t))
               (\<lambda>p3 s3 c3. rmatch (Lit '']]'') p3 s3 c3 ?K) = Some (len, c)"
    by blast
  from t(2) have t': "CHR '']'' \<notin> set t" "CHR ''|'' \<notin> set t"
    by (auto simp: noneOf_def)
  from rmatch_Opt_Some[OF m2] show ?thesis
  proof
    assume "rmatch (Seq (Lit ''|'') (Cap 2 (Plus (noneOf '']'')))) p2 s2 (?c0(1 := Some t))
            (\<lambda>p3 s3 c3. rmatch (Lit '']]'') p3 s3 c3 ?K) = Some (len, c)"
    then have m3: "rmatch (Lit ''|'') p2 s2 (?c0(1 := Some t))
         (\<lambda>p' s' c'. rmatch (Cap 2 (Plus (noneOf '']''))) p' s' c'
            (\<lambda>p3 s3 c3. rmatch (Lit '']]'') p3 s3 c3 ?K)) = Some (len, c)"
      by simp
    from rmatch_Lit_Some[OF m3] obtain s3 where s2: "s2 = ''|'' @ s3"
      and m4: "rmatch (Cap 2 (Plus (noneOf '']''))) (Some (last ''|'')) s3 (?c0(1 := Some t))
            (\<lambda>p3 s3 c3. rmatch (Lit '']]'') p3 s3 c3 ?K) = Some (len, c)"
      by blast
    from rmatch_Cap_Plus_Some[OF m4] obtain a s4 p4 where s3: "s3 = a @ s4" and a: "a \<noteq> []"
      "\<forall>x \<in> set a. noneOf '']'' x"
      and m5: "rmatch (Lit '']]'') p4 s4 (?c0(1 := Some t, 2 := Some a)) ?K = Some (len, c)"
      by blast
    from rmatch_Lit_Some[OF m5] obtain s5 where s4: "s4 = '']]'' @ s5"
      and r: "Some (length s - length s5, ?c0(1 := Some t, 2 := Some a)) = Some (len, c)"
      by blast
    from r have len: "len = length s - length s5" and c: "c = ?c0(1 := Some t, 2 := Some a)"
      by auto
    define w where "w = ''[['' @ t @ ''|'' @ a @ '']]''"
    from s s1 s2 s3 s4 have whole: "s = w @ s5" by (simp add: w_def)
    then have lw: "len = length w" using len by simp
    have "0 < length w" by (simp add: w_def)
    with whole lw have tk0: "take len s = w" and pos: "0 < len" "len \<le> length s"
      by simp_all
    from tk0 have tk: "take len s = ''[['' @ t @ ''|'' @ a @ '']]''" by (simp add: w_def)
    from a(2) have a': "CHR '']'' \<notin> set a" by (auto simp: noneOf_def)
    have "wikilinkShape (take len s) c"
      unfolding wikilinkShape_def using t(1) t' a(1) a' tk c by simp
    with pos show ?thesis by simp
  next
    assume m3: "rmatch (Lit '']]'') p2 s2 (?c0(1 := Some t)) ?K = Some (len, c)"
    from rmatch_Lit_Some[OF m3] obtain s5 where s2: "s2 = '']]'' @ s5"
      and r: "Some (length s - length s5, ?c0(1 := Some t)) = Some (len, c)"
      by blast
    from r have len: "len = length s - length s5" and c: "c = ?c0(1 := Some t)" by auto
    define w where "w = ''[['' @ t @ '']]''"
    from s s1 s2 have whole: "s = w @ s5" by (simp add: w_def)
    then have lw: "len = length w" using len by simp
    have "0 < length w" by (simp add: w_def)
    with whole lw have tk0: "take len s = w" and pos: "0 < len" "len \<le> length s"
      by simp_all
    from tk0 have tk: "take len s = ''[['' @ t @ '']]''" by (simp add: w_def)
    have "wikilinkShape (take len s) c"
      unfolding wikilinkShape_def using t(1) t' tk c by simp
    with pos show ?thesis by simp
  qed
qed

text \<open>What holds of every single match holds of every match the \<open>exec\<close> loop finds.\<close>

lemma execAll_all:
  "(\<And>p s len c. matchAt r p s = Some (len, c) \<Longrightarrow> Q (take len s) c) \<Longrightarrow>
   m \<in> set (execAll r i p s) \<Longrightarrow> Q (matched m) (groups m)"
proof (induction r i p s rule: execAll.induct)
  case (1 r i p)
  then show ?case by simp
next
  case (2 r i p x s)
  show ?case
  proof (cases "matchAt r p (x # s)")
    case None
    with 2 show ?thesis by simp
  next
    case (Some a)
    obtain len c where a: "a = (len, c)" by (cases a)
    show ?thesis
    proof (cases "0 < len \<and> len \<le> length (x # s)")
      case True
      from "2.prems"(2) Some a True
      have "m = \<lparr>index = i, matched = take len (x # s), groups = c\<rparr>
        \<or> m \<in> set (execAll r (i + len) (Some ((x # s) ! (len - 1))) (drop len (x # s)))"
        by simp
      then show ?thesis
      proof
        assume "m = \<lparr>index = i, matched = take len (x # s), groups = c\<rparr>"
        with "2.prems"(1)[OF Some[unfolded a]] show ?thesis by simp
      next
        assume "m \<in> set (execAll r (i + len) (Some ((x # s) ! (len - 1))) (drop len (x # s)))"
        with "2.IH"(2)[OF Some[unfolded a] refl True] "2.prems"(1) show ?thesis by blast
      qed
    next
      case False
      with "2.prems"(2) Some a have "m \<in> set (execAll r (i + 1) (Some x) s)"
        by (auto split: if_splits)
      with "2.IH"(3)[OF Some[unfolded a] refl False] "2.prems"(1) show ?thesis by blast
    qed
  qed
qed

lemma execAll_wikilinkRegex_shape:
  "m \<in> set (execAll wikilinkRegex i p s) \<Longrightarrow> wikilinkShape (matched m) (groups m)"
proof (rule execAll_all[where Q = wikilinkShape and r = wikilinkRegex])
  show "m \<in> set (execAll wikilinkRegex i p s) \<Longrightarrow> m \<in> set (execAll wikilinkRegex i p s)" .
  show "\<And>p s len c. matchAt wikilinkRegex p s = Some (len, c)
          \<Longrightarrow> wikilinkShape (take len s) c"
    using matchAt_wikilinkRegex by blast
qed

lemmas rx_eval =
  preprocessMarkdown_def stripFrontmatter_def frontmatterRegex_def aliasedWikilinkRegex_def
  plainWikilinkRegex_def tagRegex_def calloutRegex_def wikilinkRegex_def matchAt_def
  startsWith_def noneOf_def oneOf_def isSpace_def isWord_def isDot_def anyChar_def
  isLineTerminator_def group_def aliasedWikilinkSpan_def plainWikilinkSpan_def tagSpan_def
  calloutDiv_def toLowerCase_def toLowerChar_def Let_def

text \<open>The four forms of a reference are matched; a heading or a block id is part of
  the target.\<close>

lemma wikilink_forms_matched:
  "map matched (execAll wikilinkRegex 0 None ''[[t]] [[t|a]] [[t#h]] [[t#^b]]'')
     = [''[[t]]'', ''[[t|a]]'', ''[[t#h]]'', ''[[t#^b]]'']
   \<and> map (\<lambda>m. groups m 1) (execAll wikilinkRegex 0 None ''[[t]] [[t|a]] [[t#h]] [[t#^b]]'')
     = [Some ''t'', Some ''t'', Some ''t#h'', Some ''t#^b'']
   \<and> map (\<lambda>m. groups m 2) (execAll wikilinkRegex 0 None ''[[t]] [[t|a]] [[t#h]] [[t#^b]]'')
     = [None, Some ''a'', None, None]"
  by (simp add: rx_eval)

text \<open>The editor extension decorates a match only when no code node of the syntax tree
  touches it.\<close>

lemma decorateMatch_outside_code:
  "d \<in> set (decorateMatch tree from m) \<Longrightarrow>
     \<not> inCodeBlock (from + index m) (from + index m + length (matched m)) tree"
  by (auto simp: decorateMatch_def Let_def split: if_splits)

lemma buildWikilinkDecorations_inline_code:
  "buildWikilinkDecorations ''`[[Note]]`''
     (SyntaxNode ''Document'' 0 10
        [SyntaxNode ''Paragraph'' 0 10 [SyntaxNode ''InlineCode'' 0 10 []]])
     [(0, 10)] = []"
  by (simp add: buildWikilinkDecorations_def decorateMatch_def sliceString_def isCodeName_def
      rx_eval)

text \<open>Every match the editor's expression finds in a text has a target of one or more
  characters none of which is \<open>]\<close> or \<open>|\<close>, and, when there is an alias, an alias of one
  or more characters none of which is \<open>]\<close>; the matched text is \<open>[[target]]\<close> or
  \<open>[[target|alias]]\<close>. Nothing in the shape excludes a newline.\<close>

lemma wikilink_match_shape:
  "\<forall>m \<in> set (execAll wikilinkRegex 0 None text).
     \<exists>t. groups m 1 = Some t \<and> t \<noteq> [] \<and> CHR '']'' \<notin> set t \<and> CHR ''|'' \<notin> set t
       \<and> (case groups m 2 of
             None \<Rightarrow> matched m = ''[['' @ t @ '']]''
           | Some a \<Rightarrow> a \<noteq> [] \<and> CHR '']'' \<notin> set a
                       \<and> matched m = ''[['' @ t @ ''|'' @ a @ '']]'')"
proof
  fix m
  assume "m \<in> set (execAll wikilinkRegex 0 None text)"
  then have "wikilinkShape (matched m) (groups m)" by (rule execAll_wikilinkRegex_shape)
  then show "\<exists>t. groups m 1 = Some t \<and> t \<noteq> [] \<and> CHR '']'' \<notin> set t \<and> CHR ''|'' \<notin> set t
       \<and> (case groups m 2 of
             None \<Rightarrow> matched m = ''[['' @ t @ '']]''
           | Some a \<Rightarrow> a \<noteq> [] \<and> CHR '']'' \<notin> set a
                       \<and> matched m = ''[['' @ t @ ''|'' @ a @ '']]'')"
    unfolding wikilinkShape_def .
qed

lemma wikilink_match_shape_example:
  "hd (execAll wikilinkRegex 0 None ''see [[t|al]]'')
     \<in> set (execAll wikilinkRegex 0 None ''see [[t|al]]'')
   \<and> (\<exists>t. groups (hd (execAll wikilinkRegex 0 None ''see [[t|al]]'')) 1 = Some t
          \<and> t \<noteq> [] \<and> CHR '']'' \<notin> set t \<and> CHR ''|'' \<notin> set t
          \<and> (case groups (hd (execAll wikilinkRegex 0 None ''see [[t|al]]'')) 2 of
                None \<Rightarrow> matched (hd (execAll wikilinkRegex 0 None ''see [[t|al]]''))
                          = ''[['' @ t @ '']]''
              | Some a \<Rightarrow> a \<noteq> [] \<and> CHR '']'' \<notin> set a
                  \<and> matched (hd (execAll wikilinkRegex 0 None ''see [[t|al]]''))
                      = ''[['' @ t @ ''|'' @ a @ '']]''))
   \<and> matched (hd (execAll wikilinkRegex 0 None ''see [[t|al]]'')) = ''[[t|al]]''"
proof -
  have ne: "execAll wikilinkRegex 0 None ''see [[t|al]]'' \<noteq> []"
    and mt: "matched (hd (execAll wikilinkRegex 0 None ''see [[t|al]]'')) = ''[[t|al]]''"
    by (simp_all add: rx_eval)
  from ne have m: "hd (execAll wikilinkRegex 0 None ''see [[t|al]]'')
     \<in> set (execAll wikilinkRegex 0 None ''see [[t|al]]'')" by simp
  with wikilink_match_shape[of "''see [[t|al]]''"] mt show ?thesis by blast
qed

text \<open>The autocompletion of the same editor treats the text after \<open>[[\<close> as a target
  only while it is on one line: \<open>findWikilinkStart\<close> gives no context when the query
  holds a newline or a \<open>|\<close>.\<close>

lemma findWikilinkStart_single_line:
  "findWikilinkStart text pos = Some (st, q) \<Longrightarrow>
     CHR ''\<newline>'' \<notin> set q \<and> CHR ''|'' \<notin> set q"
  by (auto simp: findWikilinkStart_def Let_def simp del: findOpenBrackets.simps
      split: option.splits if_splits)

lemma findWikilinkStart_examples:
  "findWikilinkStart ''see [[ab'' 8 = Some (4, ''ab'')
   \<and> findWikilinkStart ''see [[a\<newline>b'' 9 = None"
  by (simp add: findWikilinkStart_def slice_def Let_def)

subsection \<open>C5: targets and aliases across a newline\<close>

text \<open>
  C5. The claim: no reference has a target or an alias that spans a newline. The classes
  \<open>[^\]|]\<close> and \<open>[^\]]\<close> of the expressions accept a newline: in the text
  \<open>[[a\<newline>b|c\<newline>d]]\<close> the editor's expression finds one match, with a newline in the
  target and in the alias, the editor extension decorates \<open>[[a\<newline>b]]\<close> as a
  wikilink, and the reading view turns it into a wikilink span whose target holds the
  newline. The autocompletion of the same editor, \<open>findWikilinkStart\<close>, does refuse
  a target with a newline.
\<close>

theorem wikilink_match_spans_newline:
  "length (execAll wikilinkRegex 0 None ''[[a\<newline>b|c\<newline>d]]'') = 1
   \<and> groups (hd (execAll wikilinkRegex 0 None ''[[a\<newline>b|c\<newline>d]]'')) 1 = Some ''a\<newline>b''
   \<and> groups (hd (execAll wikilinkRegex 0 None ''[[a\<newline>b|c\<newline>d]]'')) 2 = Some ''c\<newline>d''
   \<and> CHR ''\<newline>'' \<in> set ''a\<newline>b'' \<and> CHR ''\<newline>'' \<in> set ''c\<newline>d''
   \<and> buildWikilinkDecorations ''[[a\<newline>b]]'' (SyntaxNode ''Document'' 0 7 []) [(0, 7)]
       = [\<lparr>deco_from = 0, deco_to = 2, deco_mark = wikilinkBracketMark\<rparr>,
          \<lparr>deco_from = 2, deco_to = 5, deco_mark = wikilinkMark\<rparr>,
          \<lparr>deco_from = 5, deco_to = 7, deco_mark = wikilinkBracketMark\<rparr>]
   \<and> preprocessMarkdown ''[[a\<newline>b]]''
       = ''<span class=\"wikilink\" data-target=\"a\<newline>b\">a\<newline>b</span>''"
  by (simp add: rx_eval buildWikilinkDecorations_def decorateMatch_def sliceString_def
      isCodeName_def)

subsection \<open>C6: wikilinks inside code\<close>

text \<open>
  C6. The claim: a match inside a fenced code block or an inline code span gives no
  reference. The editor extension asks the syntax tree and skips such a match;
  \<open>preprocessMarkdown\<close> of the reading view has no such check and rewrites the text of
  an inline code span and of a fenced block.
\<close>

theorem preprocessMarkdown_rewrites_wikilink_in_code:
  "preprocessMarkdown ''`[[Note]]`''
     = ''`<span class=\"wikilink\" data-target=\"Note\">Note</span>`''
   \<and> preprocessMarkdown ''```\<newline>[[Note]]\<newline>```''
     = ''```\<newline><span class=\"wikilink\" data-target=\"Note\">Note</span>\<newline>```''"
  by (simp add: rx_eval)

end
